(* ===== verification/Prelude.thy ===== *)
theory Prelude
  imports Main
begin

text \<open>
  Shared vocabulary of the development: the Python values the constants module
  holds, the Python exceptions the player code can raise, Python's list indexing and
  dictionary subscription with their errors, and the pygame key codes the player
  reads. Facts about these helpers are collected in \<open>py_simps\<close>, which the
  component theories pass to \<open>simp\<close>.
\<close>

named_theorems py_simps "evaluation rules of the Python helper operations"

subsection \<open>Python values and exceptions\<close>

text \<open>
  A value bound in a module: a string, an int or a tuple. The constants module
  \<open>src/data/constants.py\<close> binds only these (pygame key codes are ints).
\<close>

datatype pyval = PStr string | PInt int | PTuple "pyval list"

text \<open>The exceptions the modelled code can raise, with the name or key involved.\<close>

datatype py_error =
    AttributeError string
  | KeyError pyval
  | IndexError
  | TypeError string
  | ImageError string

type_synonym 'a result = "py_error + 'a"

text \<open>
  Sequencing of two statements of which the first may raise: the exception propagates
  and the rest is skipped, as in Python.
\<close>

fun py_bind :: "'a result \<Rightarrow> ('a \<Rightarrow> 'b result) \<Rightarrow> 'b result" where
  "py_bind (Inl e) f = Inl e"
| "py_bind (Inr x) f = f x"

text \<open>
  Reference semantics of a loop that applies a raising operation to each element of a
  list in order and collects the results: the first exception aborts it.
\<close>

fun py_mapM :: "('a \<Rightarrow> 'b result) \<Rightarrow> 'a list \<Rightarrow> 'b list result" where
  "py_mapM f [] = Inr []"
| "py_mapM f (x # xs) = py_bind (f x) (\<lambda>y. py_bind (py_mapM f xs) (\<lambda>ys. Inr (y # ys)))"

subsection \<open>Dictionary subscription and list indexing\<close>

text \<open>\<open>d[k]\<close> on a Python dict: the value, or KeyError.\<close>

definition py_getitem :: "('k \<rightharpoonup> 'v) \<Rightarrow> 'k \<Rightarrow> ('k \<Rightarrow> pyval) \<Rightarrow> 'v result" where
  "py_getitem d k show_key = (case d k of None \<Rightarrow> Inl (KeyError (show_key k)) | Some v \<Rightarrow> Inr v)"

text \<open>\<open>xs[i]\<close> on a Python list: negative indices count from the end; out of range is IndexError.\<close>

definition py_index :: "'a list \<Rightarrow> int \<Rightarrow> 'a result" where
  "py_index xs i =
     (if 0 \<le> i \<and> i < int (length xs) then Inr (xs ! nat i)
      else if i < 0 \<and> - int (length xs) \<le> i then Inr (xs ! nat (int (length xs) + i))
      else Inl IndexError)"

text \<open>\<open>xs.pop(-1)\<close>, keeping the list: IndexError on the empty list, else drop the last element.\<close>

definition py_pop_last :: "'a list \<Rightarrow> 'a list result" where
  "py_pop_last xs = (if xs = [] then Inl IndexError else Inr (butlast xs))"

subsection \<open>Arithmetic and comparison on module values\<close>

text \<open>
  \<open>a - b\<close> and \<open>a > b\<close> where an operand comes from a module attribute: defined on
  ints; on any other value Python 3 raises TypeError.
\<close>

fun py_sub :: "pyval \<Rightarrow> pyval \<Rightarrow> pyval result" where
  "py_sub (PInt a) (PInt b) = Inr (PInt (a - b))"
| "py_sub _ _ = Inl (TypeError ''-'')"

fun py_gt :: "pyval \<Rightarrow> pyval \<Rightarrow> bool result" where
  "py_gt (PInt a) (PInt b) = Inr (b < a)"
| "py_gt _ _ = Inl (TypeError ''>'')"

fun is_int :: "pyval \<Rightarrow> bool" where
  "is_int (PInt _) = True"
| "is_int _ = False"

fun int_of :: "pyval \<Rightarrow> int" where
  "int_of (PInt n) = n"
| "int_of _ = 0"

subsection \<open>pygame key codes\<close>

text \<open>
  \<open>pygame.key.get_pressed()\<close> is a sequence of booleans indexed by key code; a
  snapshot is modelled as a function from key codes to \<open>bool\<close>. The codes are those of
  pygame 2 (\<open>pygame.locals\<close>); only their distinctness matters below.
\<close>

type_synonym keys = "int \<Rightarrow> bool"

definition K_SPACE :: int where "K_SPACE = 32"
definition K_a :: int where "K_a = 97"
definition K_s :: int where "K_s = 115"
definition K_RIGHT :: int where "K_RIGHT = 1073741903"
definition K_LEFT :: int where "K_LEFT = 1073741904"

lemmas key_codes = K_SPACE_def K_a_def K_s_def K_RIGHT_def K_LEFT_def

subsection \<open>Helper lemmas\<close>

lemma py_getitem_Some [simp, py_simps]: "d k = Some v \<Longrightarrow> py_getitem d k f = Inr v"
  by (simp add: py_getitem_def)

lemma py_getitem_None [simp, py_simps]: "d k = None \<Longrightarrow> py_getitem d k f = Inl (KeyError (f k))"
  by (simp add: py_getitem_def)

lemma py_getitem_Inr_iff: "py_getitem d k f = Inr v \<longleftrightarrow> d k = Some v"
  by (simp add: py_getitem_def split: option.splits)

lemma py_index_nonneg [simp, py_simps]:
  "0 \<le> i \<Longrightarrow> i < int (length xs) \<Longrightarrow> py_index xs i = Inr (xs ! nat i)"
  by (simp add: py_index_def)

lemma py_index_Inr_iff:
  "0 \<le> i \<Longrightarrow> py_index xs i = Inr v \<longleftrightarrow> i < int (length xs) \<and> v = xs ! nat i"
  by (auto simp add: py_index_def)

lemma py_pop_last_Cons [simp, py_simps]: "py_pop_last (x # xs) = Inr (butlast (x # xs))"
  by (simp add: py_pop_last_def)

lemma py_pop_last_Nil [simp, py_simps]: "py_pop_last [] = Inl IndexError"
  by (simp add: py_pop_last_def)

lemma py_bind_Inr_iff [py_simps]: "py_bind m f = Inr y \<longleftrightarrow> (\<exists>x. m = Inr x \<and> f x = Inr y)"
  by (cases m) auto

lemma py_bind_Inl_iff: "py_bind m f = Inl e \<longleftrightarrow> m = Inl e \<or> (\<exists>x. m = Inr x \<and> f x = Inl e)"
  by (cases m) auto

lemma py_bind_assoc [simp]: "py_bind (py_bind m f) g = py_bind m (\<lambda>x. py_bind (f x) g)"
  by (cases m) auto

lemma py_mapM_defined:
  "(\<exists>ys. py_mapM f xs = Inr ys) \<longleftrightarrow> (\<forall>x\<in>set xs. \<exists>y. f x = Inr y)"
proof (induction xs)
  case Nil
  then show ?case by simp
next
  case (Cons x xs)
  then show ?case by (cases "f x") (auto simp add: py_bind_Inr_iff)
qed

lemma py_mapM_Inr_iff:
  "py_mapM f xs = Inr ys \<longleftrightarrow> length ys = length xs \<and> (\<forall>k < length xs. f (xs ! k) = Inr (ys ! k))"
proof (induction xs arbitrary: ys)
  case Nil
  then show ?case by auto
next
  case (Cons x xs)
  show ?case
  proof
    assume "py_mapM f (x # xs) = Inr ys"
    then obtain y ys' where "f x = Inr y" "py_mapM f xs = Inr ys'" "ys = y # ys'"
      by (auto simp add: py_bind_Inr_iff)
    with Cons.IH show "length ys = length (x # xs) \<and> (\<forall>k < length (x # xs). f ((x # xs) ! k) = Inr (ys ! k))"
      by (auto simp add: nth_Cons split: nat.splits)
  next
    assume r: "length ys = length (x # xs) \<and> (\<forall>k < length (x # xs). f ((x # xs) ! k) = Inr (ys ! k))"
    then obtain y ys' where ys: "ys = y # ys'" by (cases ys) auto
    with r have "f x = Inr y" by force
    moreover from r ys have "py_mapM f xs = Inr ys'"
      using Cons.IH by fastforce
    ultimately show "py_mapM f (x # xs) = Inr ys" using ys by simp
  qed
qed

lemma is_int_conv: "is_int v \<longleftrightarrow> v = PInt (int_of v)"
  by (cases v) auto

end
