(* ===== verification/Constants.thy ===== *)
theory Constants
  imports Prelude
begin

text \<open>
  The configuration module \<open>src/data/constants.py\<close> as the map from attribute names to
  the values the module binds, and attribute access \<open>c.NAME\<close> on it, which raises
  AttributeError for a name the module does not bind. The player code is stated over
  any module \<open>cm\<close>; \<open>player_consts_ok\<close> names what it needs from one. The
  repository's own module lacks \<open>JUMPING\<close>; \<open>constants_with_jumping\<close> is that module
  with the one missing binding added, the module the player code was written against.
\<close>

type_synonym module = "string \<rightharpoonup> pyval"

definition constants_module :: module where
  "constants_module =
     [''BLACK'' \<mapsto> PTuple [PInt 0, PInt 0, PInt 0],
      ''WHITE'' \<mapsto> PTuple [PInt 255, PInt 255, PInt 255],
      ''LEVEL1'' \<mapsto> PStr ''level1'',
      ''MAIN_MENU'' \<mapsto> PStr ''main menu'',
      ''NORMAL'' \<mapsto> PStr ''normal'',
      ''STANDING'' \<mapsto> PStr ''standing'',
      ''WALKING'' \<mapsto> PStr ''walking'',
      ''FREE_FALL'' \<mapsto> PStr ''free fall'',
      ''SLOWEST_FREQUENCY'' \<mapsto> PInt 100,
      ''START_JUMP_VEL'' \<mapsto> PInt (-1020),
      ''GRAVITY'' \<mapsto> PInt 2520,
      ''RUN_SPEED'' \<mapsto> PInt 600,
      ''WALK_SPEED'' \<mapsto> PInt 350,
      ''MAIN_FONT'' \<mapsto> PStr ''DroidSans'',
      ''RIGHT'' \<mapsto> PStr ''right'',
      ''LEFT'' \<mapsto> PStr ''left'',
      ''JUMP_BUTTON'' \<mapsto> PInt K_a,
      ''RUN_BUTTON'' \<mapsto> PInt K_s,
      ''BUMPED'' \<mapsto> PStr ''bumped'',
      ''OPENED'' \<mapsto> PStr ''opened'',
      ''BUMP_SPEED'' \<mapsto> PInt (-1000),
      ''BUMP_GRAVITY'' \<mapsto> PInt 6000]"

text \<open>\<open>c.NAME\<close>: module attribute access.\<close>

definition c_attr :: "module \<Rightarrow> string \<Rightarrow> pyval result" where
  "c_attr cm n = (case cm n of None \<Rightarrow> Inl (AttributeError n) | Some v \<Rightarrow> Inr v)"

text \<open>The value bound to a name, where one is.\<close>

definition cval :: "module \<Rightarrow> string \<Rightarrow> pyval" where
  "cval cm n = the (cm n)"

text \<open>The values of the names the player reads.\<close>

abbreviation c_STANDING :: "module \<Rightarrow> pyval" where "c_STANDING cm \<equiv> cval cm ''STANDING''"
abbreviation c_WALKING :: "module \<Rightarrow> pyval" where "c_WALKING cm \<equiv> cval cm ''WALKING''"
abbreviation c_JUMPING :: "module \<Rightarrow> pyval" where "c_JUMPING cm \<equiv> cval cm ''JUMPING''"
abbreviation c_RIGHT :: "module \<Rightarrow> pyval" where "c_RIGHT cm \<equiv> cval cm ''RIGHT''"
abbreviation c_LEFT :: "module \<Rightarrow> pyval" where "c_LEFT cm \<equiv> cval cm ''LEFT''"
abbreviation c_START_JUMP_VEL :: "module \<Rightarrow> pyval" where "c_START_JUMP_VEL cm \<equiv> cval cm ''START_JUMP_VEL''"
abbreviation c_SLOWEST_FREQUENCY :: "module \<Rightarrow> int" where
  "c_SLOWEST_FREQUENCY cm \<equiv> int_of (cval cm ''SLOWEST_FREQUENCY'')"

text \<open>
  What the player code reads from the module: the three state names, pairwise distinct
  (they key the dispatch table), the two direction names, distinct (they key the frame
  dictionaries), an int \<open>SLOWEST_FREQUENCY\<close> (it is compared with a time difference)
  and a \<open>START_JUMP_VEL\<close>.
\<close>

definition player_consts_ok :: "module \<Rightarrow> bool" where
  "player_consts_ok cm \<longleftrightarrow>
     cm ''STANDING'' \<noteq> None \<and> cm ''WALKING'' \<noteq> None \<and> cm ''JUMPING'' \<noteq> None \<and>
     cm ''RIGHT'' \<noteq> None \<and> cm ''LEFT'' \<noteq> None \<and>
     cm ''SLOWEST_FREQUENCY'' \<noteq> None \<and> cm ''START_JUMP_VEL'' \<noteq> None \<and>
     distinct [cval cm ''STANDING'', cval cm ''WALKING'', cval cm ''JUMPING''] \<and>
     cval cm ''RIGHT'' \<noteq> cval cm ''LEFT'' \<and>
     is_int (cval cm ''SLOWEST_FREQUENCY'')"

definition constants_with_jumping :: module where
  "constants_with_jumping = constants_module(''JUMPING'' \<mapsto> PStr ''jumping'')"

lemma c_attr_Some [simp, py_simps]: "cm n = Some v \<Longrightarrow> c_attr cm n = Inr v"
  by (simp add: c_attr_def)

lemma c_attr_None [simp, py_simps]: "cm n = None \<Longrightarrow> c_attr cm n = Inl (AttributeError n)"
  by (simp add: c_attr_def)

lemma c_attr_defined: "cm n \<noteq> None \<Longrightarrow> c_attr cm n = Inr (cval cm n)"
  by (auto simp add: c_attr_def cval_def)

lemma constants_with_jumping_ok: "player_consts_ok constants_with_jumping"
  by (simp add: player_consts_ok_def constants_with_jumping_def constants_module_def cval_def)

lemma constants_with_jumping_vals:
  "c_STANDING constants_with_jumping = PStr ''standing''"
  "c_WALKING constants_with_jumping = PStr ''walking''"
  "c_JUMPING constants_with_jumping = PStr ''jumping''"
  "c_RIGHT constants_with_jumping = PStr ''right''"
  "c_LEFT constants_with_jumping = PStr ''left''"
  "c_START_JUMP_VEL constants_with_jumping = PInt (-1020)"
  "c_SLOWEST_FREQUENCY constants_with_jumping = 100"
  by (simp_all add: cval_def constants_with_jumping_def constants_module_def)

lemma constants_module_no_JUMPING: "constants_module ''JUMPING'' = None"
  by (simp add: constants_module_def)

text \<open>Under \<open>player_consts_ok\<close> every attribute the player reads evaluates to its value.\<close>

lemma consts_ok_attrs [py_simps]:
  assumes "player_consts_ok cm"
  shows "c_attr cm ''STANDING'' = Inr (cval cm ''STANDING'')"
    and "c_attr cm ''WALKING'' = Inr (cval cm ''WALKING'')"
    and "c_attr cm ''JUMPING'' = Inr (cval cm ''JUMPING'')"
    and "c_attr cm ''RIGHT'' = Inr (cval cm ''RIGHT'')"
    and "c_attr cm ''LEFT'' = Inr (cval cm ''LEFT'')"
    and "c_attr cm ''SLOWEST_FREQUENCY'' = Inr (PInt (int_of (cval cm ''SLOWEST_FREQUENCY'')))"
    and "c_attr cm ''START_JUMP_VEL'' = Inr (cval cm ''START_JUMP_VEL'')"
  using assms by (simp_all add: player_consts_ok_def c_attr_defined flip: is_int_conv)

lemma consts_ok_distinct [py_simps]:
  assumes "player_consts_ok cm"
  shows "cval cm ''STANDING'' \<noteq> cval cm ''WALKING''"
    and "cval cm ''STANDING'' \<noteq> cval cm ''JUMPING''"
    and "cval cm ''WALKING'' \<noteq> cval cm ''JUMPING''"
    and "cval cm ''RIGHT'' \<noteq> cval cm ''LEFT''"
  using assms by (auto simp add: player_consts_ok_def)

end
