(* ===== verification/Images.thy ===== *)
theory Images
  imports Prelude
begin

text \<open>
  The image provider the player is built from. The player code uses three image
  operations: \<open>tools.get_image(x, y, w, h, sheet)\<close> (cut a rectangle out of a sprite
  sheet), \<open>pygame.transform.flip(img, True, False)\<close> (mirror horizontally) and
  \<open>img.get_rect(...)\<close> (the image's size). \<open>image_api\<close> is that interface; the frame
  set builder and the controller are stated over any \<open>'img image_api\<close>. \<open>pixel_api\<close>
  implements it on surfaces given by their size and a pixel function, with
  \<open>get_image\<close> as the spec describes it (a construction-time error when the rectangle is
  not inside the sheet) and \<open>flip\<close> as pygame defines it.
\<close>

record 'img image_api =
  get_image :: "int \<Rightarrow> int \<Rightarrow> int \<Rightarrow> int \<Rightarrow> 'img \<Rightarrow> 'img result"
  transform_flip :: "'img \<Rightarrow> bool \<Rightarrow> bool \<Rightarrow> 'img"
  get_size :: "'img \<Rightarrow> int \<times> int"

subsection \<open>Pixel surfaces\<close>

text \<open>A surface: width, height and the pixel at column \<open>x\<close>, row \<open>y\<close>.\<close>

record 'px surface =
  s_width :: int
  s_height :: int
  s_pixel :: "int \<Rightarrow> int \<Rightarrow> 'px"

definition rect_inside :: "int \<Rightarrow> int \<Rightarrow> int \<Rightarrow> int \<Rightarrow> 'px surface \<Rightarrow> bool" where
  "rect_inside x y w h s \<longleftrightarrow>
     0 \<le> x \<and> 0 \<le> y \<and> 0 < w \<and> 0 < h \<and> x + w \<le> s_width s \<and> y + h \<le> s_height s"

text \<open>\<open>tools.get_image\<close>: the \<open>w \<times> h\<close> rectangle of the sheet at \<open>(x, y)\<close>.\<close>

definition surf_get_image :: "int \<Rightarrow> int \<Rightarrow> int \<Rightarrow> int \<Rightarrow> 'px surface \<Rightarrow> 'px surface result" where
  "surf_get_image x y w h sheet =
     (if rect_inside x y w h sheet
      then Inr \<lparr>s_width = w, s_height = h, s_pixel = (\<lambda>cx cy. s_pixel sheet (x + cx) (y + cy))\<rparr>
      else Inl (ImageError ''rectangle outside sprite sheet''))"

text \<open>\<open>pygame.transform.flip(s, xbool, ybool)\<close>: mirror across the vertical and/or horizontal axis.\<close>

definition surf_flip :: "'px surface \<Rightarrow> bool \<Rightarrow> bool \<Rightarrow> 'px surface" where
  "surf_flip s xb yb =
     s\<lparr>s_pixel := (\<lambda>cx cy. s_pixel s (if xb then s_width s - 1 - cx else cx)
                                    (if yb then s_height s - 1 - cy else cy))\<rparr>"

definition surf_size :: "'px surface \<Rightarrow> int \<times> int" where
  "surf_size s = (s_width s, s_height s)"

definition pixel_api :: "'px surface image_api" where
  "pixel_api = \<lparr>get_image = surf_get_image, transform_flip = surf_flip, get_size = surf_size\<rparr>"

text \<open>A horizontal mirror of a surface of width \<open>w\<close>: pixel \<open>(x, y)\<close> is pixel \<open>(w - 1 - x, y)\<close> of the original.\<close>

definition is_hmirror :: "'px surface \<Rightarrow> 'px surface \<Rightarrow> bool" where
  "is_hmirror a b \<longleftrightarrow>
     s_width a = s_width b \<and> s_height a = s_height b \<and>
     (\<forall>x y. s_pixel a x y = s_pixel b (s_width b - 1 - x) y)"

text \<open>
  A sheet whose every pixel holds its own coordinates: what a slice of it holds says which
  rectangle was cut. Used to run the builders on concrete sheets.
\<close>

definition coord_sheet :: "int \<Rightarrow> int \<Rightarrow> (int \<times> int) surface" where
  "coord_sheet w h = \<lparr>s_width = w, s_height = h, s_pixel = Pair\<rparr>"

subsection \<open>Lemmas\<close>

lemma pixel_api_simps [simp]:
  "get_image pixel_api = surf_get_image"
  "transform_flip pixel_api = surf_flip"
  "get_size pixel_api = surf_size"
  by (simp_all add: pixel_api_def)

lemma surf_get_image_Inr_iff:
  "surf_get_image x y w h sheet = Inr s \<longleftrightarrow>
     rect_inside x y w h sheet \<and> s_width s = w \<and> s_height s = h \<and>
     (\<forall>cx cy. s_pixel s cx cy = s_pixel sheet (x + cx) (y + cy))"
  by (auto simp add: surf_get_image_def intro!: surface.equality ext)

lemma surf_flip_size [simp]:
  "s_width (surf_flip s xb yb) = s_width s" "s_height (surf_flip s xb yb) = s_height s"
  by (simp_all add: surf_flip_def)

lemma surf_flip_hmirror: "is_hmirror (surf_flip s True False) s"
  by (simp add: surf_flip_def is_hmirror_def)

lemma surf_flip_involutive [simp]: "surf_flip (surf_flip s True False) True False = s"
  by (rule surface.equality) (simp_all add: surf_flip_def)

lemma hmirror_unique: "is_hmirror a b \<Longrightarrow> is_hmirror a' b \<Longrightarrow> a = a'"
  by (rule surface.equality) (auto simp add: is_hmirror_def intro!: ext)

end
