(* ===== verification/FrameSets.thy ===== *)
theory FrameSets
  imports Constants Images "HOL-Library.While_Combinator"
begin

text \<open>
  The animation frame sets of \<open>src/data/sprites/player.py\<close>
  (\<open>make_walking_image_dict\<close>, \<open>make_walking_image_list\<close>,
  \<open>make_standing_image_dict\<close>, \<open>make_jumping_image_dict\<close>), built once in the
  constructor from the loaded sheets \<open>setup.GFX\<close> (a dictionary from names to images,
  the parameter \<open>gfx\<close>) through an image provider \<open>api\<close>. Each builder returns its
  dictionary, or the first exception raised while building it. The nested coordinate loops
  of \<open>make_walking_image_list\<close> are the loop \<open>coord_loop\<close> over
  \<open>while_option\<close>, which the builder runs; it is proved to terminate with the row-major
  grid for every pair of bounds, and evaluates to \<open>walk_coords\<close> at the code's bounds.
\<close>

type_synonym 'img gfx = "string \<rightharpoonup> 'img"

subsection \<open>Walking cycle\<close>

text \<open>The grid cells in row-major order: what the two nested \<open>for\<close> loops are meant to append.\<close>

definition walk_coords :: "(int \<times> int) list" where
  "walk_coords = concat (map (\<lambda>y. map (\<lambda>x. (x, y)) [0..5]) [0..1])"

text \<open>
  The same coordinates as the two nested \<open>for ... in range(...)\<close> loops compute them,
  kept as a loop: \<open>coord_step\<close> is one iteration of the flattened loop over the
  counters \<open>y\<close> (outer) and \<open>x\<close> (inner), appending \<open>(x, y)\<close> while the inner
  range lasts and otherwise moving to the next row; \<open>coord_loop ny nx\<close> runs it from
  empty until the outer range is exhausted. The code runs it with \<open>range(2)\<close> and
  \<open>range(6)\<close>. \<open>range_grid\<close> is the row-major grid the loops are meant to produce,
  \<open>coord_inv\<close> the loop invariant: the rows done so far and the current row's prefix.
\<close>

definition range_grid :: "int \<Rightarrow> int \<Rightarrow> (int \<times> int) list" where
  "range_grid ny nx = concat (map (\<lambda>y. map (\<lambda>x. (x, y)) [0..nx - 1]) [0..ny - 1])"

definition coord_step :: "int \<Rightarrow> int \<times> int \<times> (int \<times> int) list \<Rightarrow> int \<times> int \<times> (int \<times> int) list" where
  "coord_step nx s = (case s of (y, x, coord) \<Rightarrow>
     if x < nx then (y, x + 1, coord @ [(x, y)]) else (y + 1, 0, coord))"

definition coord_loop :: "int \<Rightarrow> int \<Rightarrow> (int \<times> int) list option" where
  "coord_loop ny nx =
     map_option (\<lambda>(y, x, coord). coord)
       (while_option (\<lambda>(y, x, coord). y < ny) (coord_step nx) (0, 0, []))"

definition coord_inv :: "int \<Rightarrow> int \<Rightarrow> int \<times> int \<times> (int \<times> int) list \<Rightarrow> bool" where
  "coord_inv ny nx s = (case s of (y, x, coord) \<Rightarrow>
     0 \<le> y \<and> y \<le> max ny 0 \<and> 0 \<le> x \<and> x \<le> max nx 0 \<and> (ny \<le> y \<longrightarrow> x = 0) \<and>
     coord = range_grid y nx @ map (\<lambda>x'. (x', y)) [0..x - 1])"

text \<open>The second loop: slice one 72 \<open>\<times>\<close> 97 cell per coordinate, appending in order.\<close>

fun slice_cells :: "'img image_api \<Rightarrow> 'img \<Rightarrow> (int \<times> int) list \<Rightarrow> 'img list \<Rightarrow> 'img list result" where
  "slice_cells api sheet [] acc = Inr acc"
| "slice_cells api sheet (pos # ps) acc =
     (let width = 72; height = 97; x = fst pos * width; y = snd pos * height
      in py_bind (get_image api x y width height sheet)
           (\<lambda>im. slice_cells api sheet ps (acc @ [im])))"

definition make_walking_image_list :: "'img image_api \<Rightarrow> 'img \<Rightarrow> bool \<Rightarrow> 'img list result" where
  "make_walking_image_list api sprite_sheet reverse_images =
     py_bind (slice_cells api sprite_sheet (the (coord_loop 2 6)) [])
       (\<lambda>walking_images. py_bind (py_pop_last walking_images)
         (\<lambda>walking_images.
            if reverse_images
            then Inr (map (\<lambda>image. transform_flip api image True False) walking_images)
            else Inr walking_images))"

definition make_walking_image_dict ::
  "module \<Rightarrow> 'img image_api \<Rightarrow> 'img gfx \<Rightarrow> (pyval \<rightharpoonup> 'img list) result" where
  "make_walking_image_dict cm api gfx =
     py_bind (py_getitem gfx ''p1_walking'' PStr) (\<lambda>sprite_sheet.
     py_bind (make_walking_image_list api sprite_sheet False) (\<lambda>right_images.
     py_bind (make_walking_image_list api sprite_sheet True) (\<lambda>left_images.
     py_bind (c_attr cm ''RIGHT'') (\<lambda>r.
     py_bind (c_attr cm ''LEFT'') (\<lambda>l.
       Inr (Map.empty(r \<mapsto> right_images, l \<mapsto> left_images)))))))"

subsection \<open>Standing and jumping poses\<close>

definition make_standing_image_dict ::
  "module \<Rightarrow> 'img image_api \<Rightarrow> 'img gfx \<Rightarrow> (pyval \<rightharpoonup> 'img) result" where
  "make_standing_image_dict cm api gfx =
     py_bind (py_getitem gfx ''p1_stand'' PStr) (\<lambda>right_image.
     (let left_image = transform_flip api right_image True False in
     py_bind (c_attr cm ''RIGHT'') (\<lambda>r.
     py_bind (c_attr cm ''LEFT'') (\<lambda>l.
       Inr (Map.empty(r \<mapsto> right_image, l \<mapsto> left_image))))))"

definition make_jumping_image_dict ::
  "module \<Rightarrow> 'img image_api \<Rightarrow> 'img gfx \<Rightarrow> (pyval \<rightharpoonup> 'img) result" where
  "make_jumping_image_dict cm api gfx =
     py_bind (py_getitem gfx ''p1_jumping'' PStr) (\<lambda>sheet.
     py_bind (get_image api 0 0 66 97 sheet) (\<lambda>right_image.
     py_bind (get_image api 66 0 66 97 sheet) (\<lambda>left_image.
     py_bind (c_attr cm ''RIGHT'') (\<lambda>r.
     py_bind (c_attr cm ''LEFT'') (\<lambda>l.
       Inr (Map.empty(r \<mapsto> right_image, l \<mapsto> left_image)))))))"

text \<open>
  A loaded-sheets dictionary with coordinate sheets of the reference asset sizes, used to
  run the constructor on concrete input.
\<close>

definition demo_gfx :: "(int \<times> int) surface gfx" where
  "demo_gfx = [''p1_walking'' \<mapsto> coord_sheet 432 194, ''p1_stand'' \<mapsto> coord_sheet 66 92,
               ''p1_jumping'' \<mapsto> coord_sheet 132 97]"

subsection \<open>The slicing loop against its reference semantics\<close>

text \<open>One cell of the walking sheet, as the loop body slices it.\<close>

definition cell_image :: "'img image_api \<Rightarrow> 'img \<Rightarrow> int \<times> int \<Rightarrow> 'img result" where
  "cell_image api sheet pos = get_image api (fst pos * 72) (snd pos * 97) 72 97 sheet"

text \<open>
  The loop at the code's bounds \<open>range(2)\<close>, \<open>range(6)\<close> returns, with the twelve
  cells in row-major order; the builder's \<open>the\<close> selects that result.
\<close>

lemma coord_loop_walk [simp]: "coord_loop 2 6 = Some walk_coords"
  by code_simp

lemma slice_cells_mapM:
  "slice_cells api sheet ps acc = py_bind (py_mapM (cell_image api sheet) ps) (\<lambda>ims. Inr (acc @ ims))"
proof (induction ps arbitrary: acc)
  case Nil
  then show ?case by simp
next
  case (Cons pos ps)
  then show ?case
    by (cases "cell_image api sheet pos") (simp_all add: cell_image_def Let_def)
qed

lemma walk_coords_eq: "walk_coords = map (\<lambda>k. (int (k mod 6), int (k div 6))) [0..<12]"
  by (simp add: walk_coords_def upto.simps upt_rec)

lemma length_walk_coords [simp]: "length walk_coords = 12"
  by (simp add: walk_coords_eq)

lemma walk_coords_nth: "k < 12 \<Longrightarrow> walk_coords ! k = (int (k mod 6), int (k div 6))"
  by (simp add: walk_coords_eq)

lemma make_walking_image_list_Inr_iff:
  "make_walking_image_list api sheet False = Inr xs \<longleftrightarrow>
     (\<exists>ims. py_mapM (cell_image api sheet) walk_coords = Inr ims \<and> xs = butlast ims)"
proof -
  have ne: "py_mapM (cell_image api sheet) walk_coords = Inr ims \<Longrightarrow> ims \<noteq> []" for ims
    by (auto simp add: py_mapM_Inr_iff)
  show ?thesis
    by (cases "py_mapM (cell_image api sheet) walk_coords")
      (auto simp add: make_walking_image_list_def slice_cells_mapM py_pop_last_def dest: ne)
qed

lemma make_walking_image_list_cells:
  assumes "make_walking_image_list api sheet False = Inr xs"
  shows "length xs = 11 \<and> (\<forall>k < 11. cell_image api sheet (walk_coords ! k) = Inr (xs ! k))"
proof -
  from assms obtain ims where ims: "py_mapM (cell_image api sheet) walk_coords = Inr ims"
    and xs: "xs = butlast ims"
    by (auto simp add: make_walking_image_list_Inr_iff)
  from ims have len: "length ims = 12"
    and cells: "\<forall>k < 12. cell_image api sheet (walk_coords ! k) = Inr (ims ! k)"
    by (simp_all add: py_mapM_Inr_iff)
  with xs show ?thesis by (simp add: nth_butlast)
qed

lemma make_walking_image_list_reverse:
  "make_walking_image_list api sheet True =
     py_bind (make_walking_image_list api sheet False) (\<lambda>xs. Inr (map (\<lambda>i. transform_flip api i True False) xs))"
  by (cases "slice_cells api sheet walk_coords []")
    (simp_all add: make_walking_image_list_def py_pop_last_def)

text \<open>The walking dictionary: the right-facing list under \<open>c.RIGHT\<close>, its mirror under \<open>c.LEFT\<close>.\<close>

lemma make_walking_image_dict_Inr_iff:
  assumes "player_consts_ok cm"
  shows "make_walking_image_dict cm api gfx = Inr d \<longleftrightarrow>
    (\<exists>sheet right. gfx ''p1_walking'' = Some sheet \<and> make_walking_image_list api sheet False = Inr right \<and>
       d = Map.empty(c_RIGHT cm \<mapsto> right, c_LEFT cm \<mapsto> map (\<lambda>i. transform_flip api i True False) right))"
  using assms
  by (cases "gfx ''p1_walking''")
    (auto simp add: make_walking_image_dict_def make_walking_image_list_reverse py_simps py_bind_Inr_iff)

lemma make_standing_image_dict_Inr_iff:
  assumes "player_consts_ok cm"
  shows "make_standing_image_dict cm api gfx = Inr d \<longleftrightarrow>
    (\<exists>right. gfx ''p1_stand'' = Some right \<and>
       d = Map.empty(c_RIGHT cm \<mapsto> right, c_LEFT cm \<mapsto> transform_flip api right True False))"
  using assms
  by (cases "gfx ''p1_stand''") (auto simp add: make_standing_image_dict_def py_simps)

lemma make_jumping_image_dict_Inr_iff:
  assumes "player_consts_ok cm"
  shows "make_jumping_image_dict cm api gfx = Inr d \<longleftrightarrow>
    (\<exists>sheet right left. gfx ''p1_jumping'' = Some sheet \<and>
       get_image api 0 0 66 97 sheet = Inr right \<and> get_image api 66 0 66 97 sheet = Inr left \<and>
       d = Map.empty(c_RIGHT cm \<mapsto> right, c_LEFT cm \<mapsto> left))"
  using assms
  by (cases "gfx ''p1_jumping''")
    (auto simp add: make_jumping_image_dict_def py_simps py_bind_Inr_iff)

subsection \<open>The coordinate loop\<close>

lemma coord_inv_step:
  assumes "coord_inv ny nx s" "(\<lambda>(y, x, coord). y < ny) s"
  shows "coord_inv ny nx (coord_step nx s)"
proof -
  obtain y x coord where s: "s = (y, x, coord)" by (cases s) auto
  show ?thesis
  proof (cases "x < nx")
    case True
    with assms s show ?thesis
      by (auto simp add: coord_inv_def coord_step_def upto_rec2 [of 0 x])
  next
    case False
    with assms s have "x = max nx 0" by (auto simp add: coord_inv_def)
    with False assms s show ?thesis
      by (auto simp add: coord_inv_def coord_step_def range_grid_def upto_rec2 [of 0 y] max_def)
  qed
qed

lemma coord_step_measure:
  assumes "coord_inv ny nx s" "(\<lambda>(y, x, coord). y < ny) s"
  shows "(\<lambda>(y, x, coord). nat ((ny - y) * (max nx 0 + 1) + (max nx 0 - x))) (coord_step nx s) <
    (\<lambda>(y, x, coord). nat ((ny - y) * (max nx 0 + 1) + (max nx 0 - x))) s"
proof -
  obtain y x coord where s: "s = (y, x, coord)" by (cases s) auto
  have "1 \<le> ny - y" using assms s by simp
  then have pos: "max nx 0 + 1 \<le> (ny - y) * (max nx 0 + 1)"
    using mult_right_mono [of 1 "ny - y" "max nx 0 + 1"] by simp
  show ?thesis using assms s pos
    by (auto simp add: coord_inv_def coord_step_def algebra_simps)
qed

text \<open>
  C14. Termination and result of the coordinate loop: for every pair of range bounds the
  flattened nested loop stops (\<open>while_option\<close> returns \<open>Some\<close>) and yields the
  coordinates in row-major order, each row \<open>(0, y) ... (nx - 1, y)\<close> in turn.
\<close>

theorem coord_loop_returns_grid: "coord_loop ny nx = Some (range_grid ny nx)"
proof -
  have i0: "coord_inv ny nx (0, 0, [])" by (simp add: coord_inv_def range_grid_def)
  obtain s where w: "while_option (\<lambda>(y, x, coord). y < ny) (coord_step nx) (0, 0, []) = Some s"
    using measure_while_option_Some [where P = "coord_inv ny nx",
        of "\<lambda>(y, x, coord). y < ny" "coord_step nx" "\<lambda>(y, x, coord). nat ((ny - y) * (max nx 0 + 1) + (max nx 0 - x))"]
      coord_inv_step coord_step_measure i0 by blast
  have "coord_inv ny nx s" by (rule while_option_rule [OF _ w]) (auto simp add: coord_inv_step i0)
  moreover from while_option_stop [OF w] have "\<not> (\<lambda>(y, x, coord). y < ny) s" .
  ultimately show ?thesis using w
    by (cases s) (auto simp add: coord_loop_def coord_inv_def range_grid_def max_def split: if_splits)
qed

theorem coord_loop_returns_grid_witness: "coord_loop 2 3 = Some [(0, 0), (1, 0), (2, 0), (0, 1), (1, 1), (2, 1)]"
  using coord_loop_returns_grid [of 2 3] by (simp add: range_grid_def upto.simps)

subsection \<open>Properties of the walking cycle\<close>

text \<open>
  C13. The walking list the builder returns has exactly 11 frames, and frame \<open>k\<close> is
  the cell in column \<open>k mod 6\<close>, row \<open>k div 6\<close> of the 6 \<open>\<times>\<close> 2 grid of
  72 \<open>\<times>\<close> 97 cells: the 12 cells in row-major order with the last one dropped.
\<close>
theorem walking_frames_row_major:
  assumes "make_walking_image_list api sheet False = Inr xs"
  shows "length xs = 11 \<and>
    (\<forall>k < 11. get_image api (int (k mod 6) * 72) (int (k div 6) * 97) 72 97 sheet = Inr (xs ! k))"
  using make_walking_image_list_cells [OF assms] by (simp add: cell_image_def walk_coords_nth)

theorem walking_frames_row_major_witness:
  "\<exists>xs. make_walking_image_list pixel_api (coord_sheet 432 194) False = Inr xs \<and> length xs = 11"
proof -
  have "\<exists>xs. make_walking_image_list pixel_api (coord_sheet 432 194) False = Inr xs"
    by (simp add: make_walking_image_list_def walk_coords_eq upt_rec surf_get_image_def rect_inside_def coord_sheet_def)
  then obtain xs where h: "make_walking_image_list pixel_api (coord_sheet 432 194) False = Inr xs" ..
  from walking_frames_row_major [OF h] h show ?thesis by blast
qed

text \<open>
  C15. The walking dictionary holds exactly the two directions; the list under \<open>c.LEFT\<close>
  is the list under \<open>c.RIGHT\<close> with every frame mirrored horizontally: slicing the
  sheet a second time for the left list yields the same frames.
\<close>

theorem walking_dict_left_mirrors_right:
  assumes "player_consts_ok cm" and "make_walking_image_dict cm api gfx = Inr d"
  shows "dom d = {c_RIGHT cm, c_LEFT cm} \<and>
    (\<exists>right. d (c_RIGHT cm) = Some right \<and>
       d (c_LEFT cm) = Some (map (\<lambda>i. transform_flip api i True False) right))"
proof -
  from assms obtain right where d:
    "d = Map.empty(c_RIGHT cm \<mapsto> right, c_LEFT cm \<mapsto> map (\<lambda>i. transform_flip api i True False) right)"
    by (auto simp add: make_walking_image_dict_Inr_iff)
  moreover have "c_RIGHT cm \<noteq> c_LEFT cm" using assms(1) by (rule consts_ok_distinct(4))
  ultimately show ?thesis by auto
qed

theorem walking_dict_left_mirrors_right_witness:
  "\<exists>d. make_walking_image_dict constants_with_jumping pixel_api
         [''p1_walking'' \<mapsto> coord_sheet 432 194] = Inr d \<and>
       dom d = {PStr ''right'', PStr ''left''}"
proof -
  have ok: "player_consts_ok constants_with_jumping" by (rule constants_with_jumping_ok)
  have "\<exists>d. make_walking_image_dict constants_with_jumping pixel_api [''p1_walking'' \<mapsto> coord_sheet 432 194] = Inr d"
    by (simp add: make_walking_image_dict_def make_walking_image_list_def walk_coords_eq upt_rec
        surf_get_image_def rect_inside_def coord_sheet_def constants_with_jumping_def constants_module_def)
  then obtain d where h: "make_walking_image_dict constants_with_jumping pixel_api [''p1_walking'' \<mapsto> coord_sheet 432 194] = Inr d" ..
  from walking_dict_left_mirrors_right [OF ok h] h show ?thesis
    by (auto simp add: cval_def constants_with_jumping_def constants_module_def)
qed

end
