(* ===== verification/Player.thy ===== *)
theory Player
  imports FrameSets
begin

text \<open>
  The controller \<open>class Player\<close> of \<open>src/data/sprites/player.py\<close>. The object is the
  record \<open>player\<close>, one field per attribute the constructor or a handler assigns. Each
  method is a function from the module \<open>cm\<close> (the \<open>c.\<close> of the source), its
  arguments and the object to the updated object, or to the exception it raises; an
  exception aborts the whole tick, so the partial assignments made before it are not
  kept. The dispatch table \<open>state_dict\<close> maps state values to the bound methods,
  named by \<open>state_method\<close>.
\<close>

datatype state_method = M_standing | M_walking | M_jumping

text \<open>\<open>pygame.Rect\<close> as returned by \<open>image.get_rect(y=535)\<close>.\<close>

record rect =
  rect_x :: int
  rect_y :: int
  rect_w :: int
  rect_h :: int

text \<open>
  The attributes of a \<open>Player\<close>. \<open>image\<close> is called \<open>image_attr\<close> (\<open>image\<close> is
  HOL's set image); \<open>image_list\<close> is \<open>None\<close> until the first \<open>walking\<close> tick creates
  the attribute. \<open>self.get_image\<close> is the image provider, passed as a parameter.
  \<open>y_vel\<close> holds whatever value \<open>c.START_JUMP_VEL\<close> binds.
\<close>

record 'img player =
  state_dict :: "pyval \<rightharpoonup> state_method"
  state :: pyval
  walking_image_dict :: "pyval \<rightharpoonup> 'img list"
  standing_image_dict :: "pyval \<rightharpoonup> 'img"
  jumping_image_dict :: "pyval \<rightharpoonup> 'img"
  index :: int
  timer :: int
  direction :: pyval
  x_vel :: int
  y_vel :: pyval
  image_attr :: 'img
  rect :: rect
  image_list :: "'img list option"

subsection \<open>Methods\<close>

definition make_state_dict :: "module \<Rightarrow> (pyval \<rightharpoonup> state_method) result" where
  "make_state_dict cm =
     py_bind (c_attr cm ''STANDING'') (\<lambda>s.
     py_bind (c_attr cm ''WALKING'') (\<lambda>w.
     py_bind (c_attr cm ''JUMPING'') (\<lambda>j.
       Inr (Map.empty(s \<mapsto> M_standing, w \<mapsto> M_walking, j \<mapsto> M_jumping)))))"

definition enter_jump_state :: "module \<Rightarrow> 'img player \<Rightarrow> 'img player result" where
  "enter_jump_state cm p =
     py_bind (c_attr cm ''JUMPING'') (\<lambda>j.
     py_bind (c_attr cm ''START_JUMP_VEL'') (\<lambda>v.
       Inr (p\<lparr>state := j, y_vel := v\<rparr>)))"

definition standing :: "module \<Rightarrow> keys \<Rightarrow> int \<Rightarrow> int \<Rightarrow> 'img player \<Rightarrow> 'img player result" where
  "standing cm keys current_time dt p =
     py_bind (py_getitem (standing_image_dict p) (direction p) id) (\<lambda>im.
     (let p1 = p\<lparr>image_attr := im\<rparr> in
     py_bind
       (if keys K_RIGHT then
          py_bind (c_attr cm ''RIGHT'') (\<lambda>r. py_bind (c_attr cm ''WALKING'') (\<lambda>w.
            Inr (p1\<lparr>index := 0, direction := r, state := w, timer := current_time\<rparr>)))
        else if keys K_LEFT then
          py_bind (c_attr cm ''LEFT'') (\<lambda>l. py_bind (c_attr cm ''WALKING'') (\<lambda>w.
            Inr (p1\<lparr>index := 0, direction := l, state := w, timer := current_time\<rparr>)))
        else Inr p1)
       (\<lambda>p2. if keys K_SPACE then enter_jump_state cm p2 else Inr p2)))"

definition get_animation_speed :: "module \<Rightarrow> int \<Rightarrow> int \<Rightarrow> pyval result" where
  "get_animation_speed cm xv dt =
     (if xv = 0 then c_attr cm ''SLOWEST_FREQUENCY''
      else if xv > 0 then
        py_bind (c_attr cm ''SLOWEST_FREQUENCY'') (\<lambda>f. py_sub f (PInt (xv * 11 * dt)))
      else
        py_bind (c_attr cm ''SLOWEST_FREQUENCY'') (\<lambda>f. py_sub f (PInt (xv * dt * 11 * -1))))"

definition animate :: "module \<Rightarrow> int \<Rightarrow> int \<Rightarrow> 'img player \<Rightarrow> 'img player result" where
  "animate cm current_time dt p =
     py_bind (get_animation_speed cm (x_vel p) dt) (\<lambda>speed.
     py_bind (py_gt (PInt (current_time - timer p)) speed) (\<lambda>due.
     if due then
       (case image_list p of
          None \<Rightarrow> Inl (AttributeError ''image_list'')
        | Some il \<Rightarrow>
            (let p1 = p\<lparr>timer := current_time\<rparr> in
             if index p < int (length il) - 1 then Inr (p1\<lparr>index := index p + 1\<rparr>)
             else Inr (p1\<lparr>index := 0\<rparr>)))
     else Inr p))"

definition walking :: "module \<Rightarrow> keys \<Rightarrow> int \<Rightarrow> int \<Rightarrow> 'img player \<Rightarrow> 'img player result" where
  "walking cm keys current_time dt p =
     py_bind (py_getitem (walking_image_dict p) (direction p) id) (\<lambda>il.
     (let p1 = p\<lparr>image_list := Some il\<rparr> in
     py_bind (py_index il (index p1)) (\<lambda>im.
     py_bind (animate cm current_time dt (p1\<lparr>image_attr := im\<rparr>)) (\<lambda>p3.
     py_bind
       (if keys K_RIGHT then py_bind (c_attr cm ''RIGHT'') (\<lambda>r. Inr (p3\<lparr>direction := r\<rparr>))
        else if keys K_LEFT then py_bind (c_attr cm ''LEFT'') (\<lambda>l. Inr (p3\<lparr>direction := l\<rparr>))
        else Inr p3)
       (\<lambda>p4. if keys K_SPACE then enter_jump_state cm p4 else Inr p4)))))"

definition jumping :: "module \<Rightarrow> keys \<Rightarrow> int \<Rightarrow> int \<Rightarrow> 'img player \<Rightarrow> 'img player result" where
  "jumping cm keys current_time dt p =
     py_bind (py_getitem (jumping_image_dict p) (direction p) id) (\<lambda>im.
     (let p1 = p\<lparr>image_attr := im\<rparr> in
     if keys K_RIGHT then py_bind (c_attr cm ''RIGHT'') (\<lambda>r. Inr (p1\<lparr>direction := r\<rparr>))
     else if keys K_LEFT then py_bind (c_attr cm ''LEFT'') (\<lambda>l. Inr (p1\<lparr>direction := l\<rparr>))
     else Inr p1))"

text \<open>\<open>update\<close>: look the current state up in the dispatch table and run its method.\<close>

definition update :: "module \<Rightarrow> keys \<Rightarrow> int \<Rightarrow> int \<Rightarrow> 'img player \<Rightarrow> 'img player result" where
  "update cm keys current_time dt p =
     py_bind (py_getitem (state_dict p) (state p) id) (\<lambda>state_function.
       case state_function of
         M_standing \<Rightarrow> standing cm keys current_time dt p
       | M_walking \<Rightarrow> walking cm keys current_time dt p
       | M_jumping \<Rightarrow> jumping cm keys current_time dt p)"

text \<open>\<open>Player.__init__\<close>, the statements in the source's order.\<close>

definition player_init :: "module \<Rightarrow> 'img image_api \<Rightarrow> 'img gfx \<Rightarrow> 'img player result" where
  "player_init cm api gfx =
     py_bind (make_state_dict cm) (\<lambda>sd.
     py_bind (c_attr cm ''STANDING'') (\<lambda>st.
     py_bind (make_walking_image_dict cm api gfx) (\<lambda>wd.
     py_bind (make_standing_image_dict cm api gfx) (\<lambda>sid.
     py_bind (make_jumping_image_dict cm api gfx) (\<lambda>jd.
     py_bind (c_attr cm ''RIGHT'') (\<lambda>r.
     py_bind (py_getitem sid r id) (\<lambda>im.
       Inr \<lparr>state_dict = sd, state = st, walking_image_dict = wd, standing_image_dict = sid,
            jumping_image_dict = jd, index = 0, timer = 0, direction = r, x_vel = 0,
            y_vel = PInt 0, image_attr = im,
            rect = \<lparr>rect_x = 0, rect_y = 535, rect_w = fst (get_size api im),
                    rect_h = snd (get_size api im)\<rparr>,
            image_list = None\<rparr>)))))))"

subsection \<open>The methods never raise under a well-formed constants module\<close>

text \<open>
  With \<open>player_consts_ok cm\<close> and the frame the method looks up present, each method
  returns normally; these are its results, branch by branch, in closed form.
\<close>

lemma enter_jump_state_Inr:
  "player_consts_ok cm \<Longrightarrow> enter_jump_state cm p = Inr (p\<lparr>state := c_JUMPING cm, y_vel := c_START_JUMP_VEL cm\<rparr>)"
  by (simp add: enter_jump_state_def py_simps)

lemma standing_Inr:
  assumes "player_consts_ok cm" "standing_image_dict p (direction p) = Some im"
  shows "standing cm keys t dt p =
    Inr (let p1 = p\<lparr>image_attr := im\<rparr>;
             p2 = (if keys K_RIGHT then p1\<lparr>index := 0, direction := c_RIGHT cm, state := c_WALKING cm, timer := t\<rparr>
                   else if keys K_LEFT then p1\<lparr>index := 0, direction := c_LEFT cm, state := c_WALKING cm, timer := t\<rparr>
                   else p1)
         in if keys K_SPACE then p2\<lparr>state := c_JUMPING cm, y_vel := c_START_JUMP_VEL cm\<rparr> else p2)"
  using assms by (simp add: standing_def enter_jump_state_Inr Let_def py_simps)

lemma jumping_Inr:
  assumes "player_consts_ok cm" "jumping_image_dict p (direction p) = Some im"
  shows "jumping cm keys t dt p =
    Inr (p\<lparr>image_attr := im,
           direction := (if keys K_RIGHT then c_RIGHT cm else if keys K_LEFT then c_LEFT cm else direction p)\<rparr>)"
  using assms by (simp add: jumping_def Let_def py_simps)

lemma get_animation_speed_Inr:
  "player_consts_ok cm \<Longrightarrow> get_animation_speed cm xv dt = Inr (PInt (c_SLOWEST_FREQUENCY cm - \<bar>xv\<bar> * 11 * dt))"
  by (simp add: get_animation_speed_def py_simps)

lemma animate_Inr:
  assumes "player_consts_ok cm" "image_list p = Some il"
  shows "animate cm t dt p =
    Inr (if c_SLOWEST_FREQUENCY cm - \<bar>x_vel p\<bar> * 11 * dt < t - timer p
         then p\<lparr>timer := t, index := (if index p < int (length il) - 1 then index p + 1 else 0)\<rparr>
         else p)"
  using assms by (simp add: animate_def get_animation_speed_Inr Let_def)

lemma walking_Inr:
  assumes "player_consts_ok cm" "walking_image_dict p (direction p) = Some il"
    and "0 \<le> index p" "index p < int (length il)"
  shows "walking cm keys t dt p =
    Inr (let p3 = (if c_SLOWEST_FREQUENCY cm - \<bar>x_vel p\<bar> * 11 * dt < t - timer p
                   then p\<lparr>timer := t, index := (if index p < int (length il) - 1 then index p + 1 else 0)\<rparr>
                   else p)\<lparr>image_list := Some il, image_attr := il ! nat (index p)\<rparr>;
             p4 = p3\<lparr>direction := (if keys K_RIGHT then c_RIGHT cm else if keys K_LEFT then c_LEFT cm else direction p)\<rparr>
         in if keys K_SPACE then p4\<lparr>state := c_JUMPING cm, y_vel := c_START_JUMP_VEL cm\<rparr> else p4)"
  using assms by (simp add: walking_def animate_Inr enter_jump_state_Inr Let_def py_simps)

lemma update_dispatch:
  "state_dict p (state p) = Some m \<Longrightarrow> update cm keys t dt p =
     (case m of M_standing \<Rightarrow> standing cm keys t dt p | M_walking \<Rightarrow> walking cm keys t dt p
      | M_jumping \<Rightarrow> jumping cm keys t dt p)"
  by (simp add: update_def)

text \<open>
  C32. The animation threshold is the spec's formula
  \<open>SLOWEST_FREQUENCY - x_vel * 11 * dt * sign(x_vel)\<close> for every horizontal velocity
  and delta: the three branches of \<open>get_animation_speed\<close> agree with it, and it never
  raises when \<open>SLOWEST_FREQUENCY\<close> is an int.
\<close>

theorem get_animation_speed_spec_formula:
  assumes "player_consts_ok cm"
  shows "get_animation_speed cm xv dt = Inr (PInt (c_SLOWEST_FREQUENCY cm - xv * 11 * dt * sgn xv))"
proof -
  have "\<bar>xv\<bar> * 11 * dt = xv * 11 * dt * sgn xv"
    by (cases "xv < 0"; cases "xv = 0") (simp_all add: abs_if)
  with assms show ?thesis by (simp add: get_animation_speed_Inr)
qed

theorem get_animation_speed_spec_formula_witness:
  "get_animation_speed constants_with_jumping (-3) 2 = Inr (PInt 34)"
  using get_animation_speed_spec_formula [OF constants_with_jumping_ok, of "-3" 2]
  by (simp add: constants_with_jumping_vals)

end
