(* ===== verification/Player_Invariant.thy ===== *)
theory Player_Invariant
  imports Player
begin

text \<open>
  The well-formedness of a \<open>Player\<close> object and the objects the program can reach. The
  object is well formed (\<open>player_wf\<close>) when its dispatch table, state, direction, frame
  dictionaries and cursor are the ones the methods look up; \<open>player_inv\<close> adds
  \<open>x_vel = 0\<close>, which the player code itself never changes. The reachable objects
  (\<open>reachable\<close>) are those the constructor builds followed by any sequence of
  \<open>update\<close> ticks; \<open>update_run\<close> is the game loop. The lemmas give \<open>update\<close> in
  closed form per state on well-formed objects, show that it never raises and keeps
  well-formedness for every horizontal velocity, and relate runs to reachability.
\<close>

definition player_wf :: "module \<Rightarrow> 'img player \<Rightarrow> bool" where
  "player_wf cm p \<longleftrightarrow>
     state_dict p (c_STANDING cm) = Some M_standing \<and>
     state_dict p (c_WALKING cm) = Some M_walking \<and>
     state_dict p (c_JUMPING cm) = Some M_jumping \<and>
     state p \<in> {c_STANDING cm, c_WALKING cm, c_JUMPING cm} \<and>
     direction p \<in> {c_RIGHT cm, c_LEFT cm} \<and>
     standing_image_dict p (c_RIGHT cm) \<noteq> None \<and> standing_image_dict p (c_LEFT cm) \<noteq> None \<and>
     jumping_image_dict p (c_RIGHT cm) \<noteq> None \<and> jumping_image_dict p (c_LEFT cm) \<noteq> None \<and>
     walking_image_dict p (c_RIGHT cm) \<noteq> None \<and> walking_image_dict p (c_LEFT cm) \<noteq> None \<and>
     length (the (walking_image_dict p (c_RIGHT cm))) = length (the (walking_image_dict p (c_LEFT cm))) \<and>
     0 \<le> index p \<and> index p < int (length (the (walking_image_dict p (c_RIGHT cm))))"

definition player_inv :: "module \<Rightarrow> 'img player \<Rightarrow> bool" where
  "player_inv cm p \<longleftrightarrow> player_wf cm p \<and> x_vel p = 0"

inductive reachable :: "module \<Rightarrow> 'img image_api \<Rightarrow> 'img gfx \<Rightarrow> 'img player \<Rightarrow> bool"
  for cm api gfx where
  init: "player_init cm api gfx = Inr p \<Longrightarrow> reachable cm api gfx p"
| tick: "reachable cm api gfx p \<Longrightarrow> update cm keys t dt p = Inr p' \<Longrightarrow> reachable cm api gfx p'"

text \<open>
  The game loop (outside the repository snapshot): it calls \<open>update\<close> once per frame
  with that frame's keys, clock value and delta; an exception ends the run.
\<close>

fun update_run :: "module \<Rightarrow> (keys \<times> int \<times> int) list \<Rightarrow> 'img player \<Rightarrow> 'img player result" where
  "update_run cm [] p = Inr p"
| "update_run cm ((keys, t, dt) # ticks) p = py_bind (update cm keys t dt p) (update_run cm ticks)"

subsection \<open>Well-formedness, one method at a time\<close>

lemma player_inv_wf [simp]: "player_inv cm p \<Longrightarrow> player_wf cm p"
  by (simp add: player_inv_def)

lemma player_wf_frames:
  assumes "player_wf cm p"
  obtains sim jim il where "standing_image_dict p (direction p) = Some sim"
    "jumping_image_dict p (direction p) = Some jim" "walking_image_dict p (direction p) = Some il"
    "0 \<le> index p" "index p < int (length il)"
  using assms unfolding player_wf_def by (elim conjE) auto

lemma player_inv_frames:
  assumes "player_inv cm p"
  obtains sim jim il where "standing_image_dict p (direction p) = Some sim"
    "jumping_image_dict p (direction p) = Some jim" "walking_image_dict p (direction p) = Some il"
    "0 \<le> index p" "index p < int (length il)"
  using assms unfolding player_inv_def by (meson player_wf_frames)

lemma player_wf_states:
  "player_wf cm p \<Longrightarrow> state p = c_STANDING cm \<or> state p = c_WALKING cm \<or> state p = c_JUMPING cm"
  by (simp add: player_wf_def)

lemma standing_step_wf:
  assumes ok: "player_consts_ok cm" and wf: "player_wf cm p"
  shows "\<exists>p'. standing cm keys t dt p = Inr p' \<and> player_wf cm p' \<and> x_vel p' = x_vel p"
proof -
  from wf obtain sim where "standing_image_dict p (direction p) = Some sim"
    by (rule player_wf_frames)
  with ok wf show ?thesis
    by (auto simp add: standing_Inr player_wf_def Let_def)
qed

lemma jumping_step_wf:
  assumes ok: "player_consts_ok cm" and wf: "player_wf cm p"
  shows "\<exists>p'. jumping cm keys t dt p = Inr p' \<and> player_wf cm p' \<and> x_vel p' = x_vel p"
proof -
  from wf obtain jim where "jumping_image_dict p (direction p) = Some jim"
    by (rule player_wf_frames)
  with ok wf show ?thesis
    by (auto simp add: jumping_Inr player_wf_def)
qed

lemma walking_step_wf:
  assumes ok: "player_consts_ok cm" and wf: "player_wf cm p"
  shows "\<exists>p'. walking cm keys t dt p = Inr p' \<and> player_wf cm p' \<and> x_vel p' = x_vel p"
proof -
  from wf obtain il where il: "walking_image_dict p (direction p) = Some il"
    and "0 \<le> index p" "index p < int (length il)"
    by (rule player_wf_frames)
  moreover from wf il have "length il = length (the (walking_image_dict p (c_RIGHT cm)))"
    by (auto simp add: player_wf_def)
  moreover from wf have "the (walking_image_dict p (c_LEFT cm)) \<noteq> []"
    by (auto simp add: player_wf_def)
  ultimately show ?thesis using ok wf
    by (simp add: walking_Inr player_wf_def Let_def)
qed

lemma update_step_wf:
  assumes ok: "player_consts_ok cm" and wf: "player_wf cm p"
  shows "\<exists>p'. update cm keys t dt p = Inr p' \<and> player_wf cm p' \<and> x_vel p' = x_vel p"
proof -
  from wf consider "state_dict p (state p) = Some M_standing" | "state_dict p (state p) = Some M_walking"
    | "state_dict p (state p) = Some M_jumping"
    using player_wf_states by (fastforce simp add: player_wf_def)
  then show ?thesis
    by cases (simp_all add: update_dispatch standing_step_wf [OF ok wf]
        walking_step_wf [OF ok wf] jumping_step_wf [OF ok wf])
qed

lemma update_step_inv:
  assumes ok: "player_consts_ok cm" and inv: "player_inv cm p"
  shows "\<exists>p'. update cm keys t dt p = Inr p' \<and> player_inv cm p'"
  using update_step_wf [OF ok player_inv_wf [OF inv], of keys t dt] inv
  by (auto simp add: player_inv_def)

subsection \<open>\<open>update\<close> on a well-formed object, per state\<close>

lemma update_standing:
  assumes ok: "player_consts_ok cm" and wf: "player_wf cm p" and st: "state p = c_STANDING cm"
  shows "update cm keys t dt p =
    Inr (let p1 = p\<lparr>image_attr := the (standing_image_dict p (direction p))\<rparr>;
             p2 = (if keys K_RIGHT then p1\<lparr>index := 0, direction := c_RIGHT cm, state := c_WALKING cm, timer := t\<rparr>
                   else if keys K_LEFT then p1\<lparr>index := 0, direction := c_LEFT cm, state := c_WALKING cm, timer := t\<rparr>
                   else p1)
         in if keys K_SPACE then p2\<lparr>state := c_JUMPING cm, y_vel := c_START_JUMP_VEL cm\<rparr> else p2)"
proof -
  from wf obtain sim where "standing_image_dict p (direction p) = Some sim"
    by (rule player_wf_frames)
  with ok wf st show ?thesis
    by (simp add: update_dispatch standing_Inr player_wf_def)
qed

lemma update_jumping:
  assumes ok: "player_consts_ok cm" and wf: "player_wf cm p" and st: "state p = c_JUMPING cm"
  shows "update cm keys t dt p =
    Inr (p\<lparr>image_attr := the (jumping_image_dict p (direction p)),
           direction := (if keys K_RIGHT then c_RIGHT cm else if keys K_LEFT then c_LEFT cm else direction p)\<rparr>)"
proof -
  from wf obtain jim where "jumping_image_dict p (direction p) = Some jim"
    by (rule player_wf_frames)
  with ok wf st show ?thesis
    by (simp add: update_dispatch jumping_Inr player_wf_def)
qed

text \<open>Walking, for any horizontal velocity: the pacing threshold is \<open>get_animation_speed\<close>'s.\<close>

lemma update_walking_wf:
  assumes ok: "player_consts_ok cm" and wf: "player_wf cm p" and st: "state p = c_WALKING cm"
  defines "il \<equiv> the (walking_image_dict p (direction p))"
  shows "update cm keys t dt p =
    Inr (let p3 = (if c_SLOWEST_FREQUENCY cm - \<bar>x_vel p\<bar> * 11 * dt < t - timer p
                   then p\<lparr>timer := t, index := (if index p < int (length il) - 1 then index p + 1 else 0)\<rparr>
                   else p)\<lparr>image_list := Some il, image_attr := il ! nat (index p)\<rparr>;
             p4 = p3\<lparr>direction := (if keys K_RIGHT then c_RIGHT cm else if keys K_LEFT then c_LEFT cm else direction p)\<rparr>
         in if keys K_SPACE then p4\<lparr>state := c_JUMPING cm, y_vel := c_START_JUMP_VEL cm\<rparr> else p4)"
proof -
  from wf obtain il' where "walking_image_dict p (direction p) = Some il'"
    and "0 \<le> index p" "index p < int (length il')"
    by (rule player_wf_frames)
  with ok wf st show ?thesis
    by (simp add: update_dispatch walking_Inr player_wf_def il_def)
qed

lemma update_walking:
  assumes ok: "player_consts_ok cm" and inv: "player_inv cm p" and st: "state p = c_WALKING cm"
  defines "il \<equiv> the (walking_image_dict p (direction p))"
  shows "update cm keys t dt p =
    Inr (let p3 = (if c_SLOWEST_FREQUENCY cm < t - timer p
                   then p\<lparr>timer := t, index := (if index p < int (length il) - 1 then index p + 1 else 0)\<rparr>
                   else p)\<lparr>image_list := Some il, image_attr := il ! nat (index p)\<rparr>;
             p4 = p3\<lparr>direction := (if keys K_RIGHT then c_RIGHT cm else if keys K_LEFT then c_LEFT cm else direction p)\<rparr>
         in if keys K_SPACE then p4\<lparr>state := c_JUMPING cm, y_vel := c_START_JUMP_VEL cm\<rparr> else p4)"
  using update_walking_wf [OF ok player_inv_wf [OF inv] st, of keys t dt] inv
  by (simp add: player_inv_def il_def)

subsection \<open>The constructor and the reachable objects\<close>

lemma make_state_dict_ok:
  "player_consts_ok cm \<Longrightarrow>
     make_state_dict cm = Inr (Map.empty(c_STANDING cm \<mapsto> M_standing, c_WALKING cm \<mapsto> M_walking, c_JUMPING cm \<mapsto> M_jumping))"
  by (simp add: make_state_dict_def py_simps)

lemma player_init_Inr_iff:
  assumes ok: "player_consts_ok cm"
  shows "player_init cm api gfx = Inr p \<longleftrightarrow>
    (\<exists>wd sid jd. make_walking_image_dict cm api gfx = Inr wd \<and> make_standing_image_dict cm api gfx = Inr sid \<and>
       make_jumping_image_dict cm api gfx = Inr jd \<and> sid (c_RIGHT cm) \<noteq> None \<and>
       p = \<lparr>state_dict = Map.empty(c_STANDING cm \<mapsto> M_standing, c_WALKING cm \<mapsto> M_walking, c_JUMPING cm \<mapsto> M_jumping),
            state = c_STANDING cm, walking_image_dict = wd, standing_image_dict = sid,
            jumping_image_dict = jd, index = 0, timer = 0, direction = c_RIGHT cm, x_vel = 0,
            y_vel = PInt 0, image_attr = the (sid (c_RIGHT cm)),
            rect = \<lparr>rect_x = 0, rect_y = 535, rect_w = fst (get_size api (the (sid (c_RIGHT cm)))),
                    rect_h = snd (get_size api (the (sid (c_RIGHT cm))))\<rparr>,
            image_list = None\<rparr>)"
  using ok by (auto simp add: player_init_def make_state_dict_ok py_simps py_bind_Inr_iff py_getitem_Inr_iff)

lemma player_init_inv:
  assumes ok: "player_consts_ok cm" and init: "player_init cm api gfx = Inr p"
  shows "player_inv cm p"
proof -
  from init ok obtain wd sid jd where wd: "make_walking_image_dict cm api gfx = Inr wd"
    and sid: "make_standing_image_dict cm api gfx = Inr sid"
    and jd: "make_jumping_image_dict cm api gfx = Inr jd"
    and p: "p = \<lparr>state_dict = Map.empty(c_STANDING cm \<mapsto> M_standing, c_WALKING cm \<mapsto> M_walking, c_JUMPING cm \<mapsto> M_jumping),
            state = c_STANDING cm, walking_image_dict = wd, standing_image_dict = sid,
            jumping_image_dict = jd, index = 0, timer = 0, direction = c_RIGHT cm, x_vel = 0,
            y_vel = PInt 0, image_attr = the (sid (c_RIGHT cm)),
            rect = \<lparr>rect_x = 0, rect_y = 535, rect_w = fst (get_size api (the (sid (c_RIGHT cm)))),
                    rect_h = snd (get_size api (the (sid (c_RIGHT cm))))\<rparr>,
            image_list = None\<rparr>"
    by (auto simp add: player_init_Inr_iff)
  from wd ok obtain sheet right where "make_walking_image_list api sheet False = Inr right"
    and wd_eq: "wd = Map.empty(c_RIGHT cm \<mapsto> right, c_LEFT cm \<mapsto> map (\<lambda>i. transform_flip api i True False) right)"
    by (auto simp add: make_walking_image_dict_Inr_iff)
  then have "length right = 11" by (simp add: make_walking_image_list_cells)
  moreover from sid ok have "sid (c_RIGHT cm) \<noteq> None \<and> sid (c_LEFT cm) \<noteq> None"
    by (auto simp add: make_standing_image_dict_Inr_iff)
  moreover from jd ok have "jd (c_RIGHT cm) \<noteq> None \<and> jd (c_LEFT cm) \<noteq> None"
    by (auto simp add: make_jumping_image_dict_Inr_iff)
  ultimately show ?thesis using ok
    by (simp add: p wd_eq player_inv_def player_wf_def py_simps)
qed

lemma reachable_inv: "reachable cm api gfx p \<Longrightarrow> player_consts_ok cm \<Longrightarrow> player_inv cm p"
proof (induction rule: reachable.induct)
  case (init p)
  then show ?case by (simp add: player_init_inv)
next
  case (tick p keys t dt p')
  then show ?case using update_step_inv [of cm p keys t dt] by auto
qed

subsection \<open>Runs\<close>

lemma index_wrap:
  assumes "0 \<le> i" "i < n"
  shows "(if i < n - 1 then i + 1 else 0) = (i + 1) mod (n::int)"
proof (cases "i < n - 1")
  case True
  with assms show ?thesis by simp
next
  case False
  then have "i + 1 = n" using \<open>i < n\<close> by arith
  with False show ?thesis by simp
qed

lemma update_frame:
  assumes ok: "player_consts_ok cm" and wf: "player_wf cm p" and upd: "update cm keys t dt p = Inr p'"
  shows "state_dict p' = state_dict p \<and> walking_image_dict p' = walking_image_dict p \<and>
    standing_image_dict p' = standing_image_dict p \<and> jumping_image_dict p' = jumping_image_dict p \<and>
    x_vel p' = x_vel p \<and> rect p' = rect p"
  using player_wf_states [OF wf]
proof (elim disjE)
  assume "state p = c_STANDING cm"
  with ok wf upd show ?thesis by (auto simp add: update_standing Let_def)
next
  assume "state p = c_WALKING cm"
  with ok wf upd show ?thesis by (auto simp add: update_walking_wf Let_def)
next
  assume "state p = c_JUMPING cm"
  with ok wf upd show ?thesis by (auto simp add: update_jumping)
qed

lemma update_run_append:
  "update_run cm (xs @ ys) p = py_bind (update_run cm xs p) (update_run cm ys)"
proof (induction cm xs p rule: update_run.induct)
  case (2 cm keys t dt ticks p)
  then show ?case by (cases "update cm keys t dt p") simp_all
qed simp

lemma update_run_wf:
  assumes ok: "player_consts_ok cm" and "player_wf cm p" "update_run cm ticks p = Inr p'"
  shows "player_wf cm p' \<and> state_dict p' = state_dict p \<and> walking_image_dict p' = walking_image_dict p \<and>
    standing_image_dict p' = standing_image_dict p \<and> jumping_image_dict p' = jumping_image_dict p \<and>
    x_vel p' = x_vel p \<and> rect p' = rect p"
  using assms(2,3)
proof (induction ticks arbitrary: p)
  case Nil
  then show ?case by simp
next
  case (Cons tick ticks)
  obtain keys t dt where tick: "tick = (keys, t, dt)" by (cases tick) auto
  from ok Cons.prems(1) obtain p1 where u: "update cm keys t dt p = Inr p1" and wf1: "player_wf cm p1"
    using update_step_wf by blast
  with Cons.prems(2) tick have "update_run cm ticks p1 = Inr p'" by simp
  with Cons.IH [OF wf1] update_frame [OF ok Cons.prems(1) u] show ?case by simp
qed

lemma update_run_inv:
  assumes "player_consts_ok cm" "player_inv cm p" "update_run cm ticks p = Inr p'"
  shows "player_inv cm p' \<and> state_dict p' = state_dict p \<and> walking_image_dict p' = walking_image_dict p \<and>
    standing_image_dict p' = standing_image_dict p \<and> jumping_image_dict p' = jumping_image_dict p \<and>
    x_vel p' = x_vel p \<and> rect p' = rect p"
  using update_run_wf [OF assms(1) player_inv_wf [OF assms(2)] assms(3)] assms(2)
  by (simp add: player_inv_def)

end
