(* ===== verification/Demo.thy ===== *)
theory Demo
  imports Player_Invariant
begin

text \<open>
  A concrete object to run the theorems on: the \<open>Player\<close> the constructor builds from
  the sheets \<open>demo_gfx\<close> through the pixel image provider with the constants module
  \<open>constants_with_jumping\<close>, its fields, its frame dictionaries, and its first
  ticks (walking right, jumping). The witnesses of the other theories evaluate here.
\<close>

text \<open>The object the constructor builds from \<open>demo_gfx\<close> with the corrected constants module.\<close>

definition demo_player :: "(int \<times> int) surface player" where
  "demo_player = projr (player_init constants_with_jumping pixel_api demo_gfx)"

lemma demo_init: "player_init constants_with_jumping pixel_api demo_gfx = Inr demo_player"
  by (simp add: demo_player_def demo_gfx_def player_init_def make_state_dict_def
      make_walking_image_dict_def make_standing_image_dict_def make_jumping_image_dict_def
      make_walking_image_list_def walk_coords_eq upt_rec surf_get_image_def rect_inside_def coord_sheet_def
      constants_with_jumping_def constants_module_def)

lemma demo_reachable: "reachable constants_with_jumping pixel_api demo_gfx demo_player"
  by (rule reachable.init) (rule demo_init)

lemma demo_inv: "player_inv constants_with_jumping demo_player"
  using reachable_inv [OF demo_reachable constants_with_jumping_ok] .

lemma demo_fields:
  "state demo_player = PStr ''standing'' \<and> direction demo_player = PStr ''right'' \<and>
   index demo_player = 0 \<and> timer demo_player = 0 \<and> x_vel demo_player = 0"
proof -
  from demo_init obtain wd sid jd y where "demo_player =
      \<lparr>state_dict = Map.empty(PStr ''standing'' \<mapsto> M_standing, PStr ''walking'' \<mapsto> M_walking, PStr ''jumping'' \<mapsto> M_jumping),
       state = PStr ''standing'', walking_image_dict = wd, standing_image_dict = sid,
       jumping_image_dict = jd, index = 0, timer = 0, direction = PStr ''right'', x_vel = 0,
       y_vel = PInt 0, image_attr = y,
       rect = \<lparr>rect_x = 0, rect_y = 535, rect_w = fst (surf_size y), rect_h = snd (surf_size y)\<rparr>,
       image_list = None\<rparr>"
    by (auto simp add: player_init_Inr_iff constants_with_jumping_ok constants_with_jumping_vals)
  note eq = this
  show ?thesis by (subst eq, simp)+
qed


lemma demo_dicts:
  "make_walking_image_dict constants_with_jumping pixel_api demo_gfx = Inr (walking_image_dict demo_player) \<and>
   make_standing_image_dict constants_with_jumping pixel_api demo_gfx = Inr (standing_image_dict demo_player) \<and>
   make_jumping_image_dict constants_with_jumping pixel_api demo_gfx = Inr (jumping_image_dict demo_player) \<and>
   y_vel demo_player = PInt 0 \<and>
   state_dict demo_player = Map.empty(PStr ''standing'' \<mapsto> M_standing, PStr ''walking'' \<mapsto> M_walking,
     PStr ''jumping'' \<mapsto> M_jumping)"
proof -
  from demo_init obtain wd sid jd y where d: "make_walking_image_dict constants_with_jumping pixel_api demo_gfx = Inr wd"
    "make_standing_image_dict constants_with_jumping pixel_api demo_gfx = Inr sid"
    "make_jumping_image_dict constants_with_jumping pixel_api demo_gfx = Inr jd"
    and eq: "demo_player =
      \<lparr>state_dict = Map.empty(PStr ''standing'' \<mapsto> M_standing, PStr ''walking'' \<mapsto> M_walking, PStr ''jumping'' \<mapsto> M_jumping),
       state = PStr ''standing'', walking_image_dict = wd, standing_image_dict = sid,
       jumping_image_dict = jd, index = 0, timer = 0, direction = PStr ''right'', x_vel = 0,
       y_vel = PInt 0, image_attr = y,
       rect = \<lparr>rect_x = 0, rect_y = 535, rect_w = fst (surf_size y), rect_h = snd (surf_size y)\<rparr>,
       image_list = None\<rparr>"
    by (auto simp add: player_init_Inr_iff constants_with_jumping_ok constants_with_jumping_vals)
  show ?thesis using d by (subst eq, simp)+
qed

lemma demo_walk:
  "\<exists>p1. update constants_with_jumping (\<lambda>k. k = K_RIGHT) 0 16 demo_player = Inr p1 \<and>
     player_inv constants_with_jumping p1 \<and> state p1 = c_WALKING constants_with_jumping \<and>
     timer p1 = 0 \<and> index p1 = 0 \<and> direction p1 = PStr ''right''"
proof -
  obtain p1 where u: "update constants_with_jumping (\<lambda>k. k = K_RIGHT) 0 16 demo_player = Inr p1"
    and inv1: "player_inv constants_with_jumping p1"
    using update_step_inv [OF constants_with_jumping_ok demo_inv] by blast
  have "state p1 = c_WALKING constants_with_jumping \<and> timer p1 = 0 \<and> index p1 = 0 \<and> direction p1 = PStr ''right''"
    using u demo_fields demo_inv constants_with_jumping_ok
    by (auto simp add: update_standing constants_with_jumping_vals Let_def key_codes)
  with u inv1 show ?thesis by blast
qed

lemma demo_jump:
  "\<exists>p2. update constants_with_jumping (\<lambda>k. k = K_SPACE) 0 16 demo_player = Inr p2 \<and>
     player_inv constants_with_jumping p2 \<and> state p2 = c_JUMPING constants_with_jumping"
proof -
  obtain p2 where u: "update constants_with_jumping (\<lambda>k. k = K_SPACE) 0 16 demo_player = Inr p2"
    and inv2: "player_inv constants_with_jumping p2"
    using update_step_inv [OF constants_with_jumping_ok demo_inv] by blast
  have "state p2 = c_JUMPING constants_with_jumping"
    using u demo_fields demo_inv constants_with_jumping_ok
    by (auto simp add: update_standing constants_with_jumping_vals Let_def key_codes)
  with u inv2 show ?thesis by blast
qed

end
