(* ===== verification/Controller_Spec.thy ===== *)
theory Controller_Spec
  imports Demo
begin

text \<open>
  The controller as the spec describes it (section 4.2, the transition table, and
  section 4.3, animation pacing), written as the tagged union the spec's design notes
  recommend: an explicit locomotion state, a facing direction, the animation cursor and
  timer and the vertical velocity. \<open>ctrl_of\<close> reads this abstract state off a
  \<open>Player\<close> object, and the refinement theorem shows that on every well-formed object
  one tick of \<open>update\<close> is one step of the abstract machine.
\<close>

datatype loco = Standing | Walking | Jumping

text \<open>
  The order in which the table lets a player pass through the states: Standing, then
  Walking, then Jumping. No row of the table goes back in this order.
\<close>

primrec loco_rank :: "loco \<Rightarrow> nat" where
  "loco_rank Standing = 0"
| "loco_rank Walking = 1"
| "loco_rank Jumping = 2"

instantiation loco :: linorder
begin

definition less_eq_loco :: "loco \<Rightarrow> loco \<Rightarrow> bool" where
  "less_eq_loco a b \<longleftrightarrow> loco_rank a \<le> loco_rank b"

definition less_loco :: "loco \<Rightarrow> loco \<Rightarrow> bool" where
  "less_loco a b \<longleftrightarrow> loco_rank a < loco_rank b"

instance
proof
  fix x y z :: loco
  show "x < y \<longleftrightarrow> x \<le> y \<and> \<not> y \<le> x" by (simp add: less_eq_loco_def less_loco_def less_le_not_le)
  show "x \<le> x" by (simp add: less_eq_loco_def)
  show "x \<le> y \<Longrightarrow> y \<le> z \<Longrightarrow> x \<le> z" by (simp add: less_eq_loco_def)
  show "x \<le> y \<Longrightarrow> y \<le> x \<Longrightarrow> x = y" by (cases x; cases y) (simp_all add: less_eq_loco_def)
  show "x \<le> y \<or> y \<le> x" by (simp add: less_eq_loco_def linear)
qed

end

datatype facing = FaceRight | FaceLeft

record 'v ctrl =
  loco :: loco
  face :: facing
  cursor :: int
  anim_timer :: int
  vy :: 'v

record input =
  right_key :: bool
  left_key :: bool
  jump_key :: bool

text \<open>Right is checked first; Left only when Right is not pressed.\<close>

definition turn :: "input \<Rightarrow> facing \<Rightarrow> facing" where
  "turn i f = (if right_key i then FaceRight else if left_key i then FaceLeft else f)"

text \<open>Jump entry, shared by Standing and Walking: the state and the launch velocity only.\<close>

definition jump_entry :: "'v \<Rightarrow> input \<Rightarrow> 'v ctrl \<Rightarrow> 'v ctrl" where
  "jump_entry launch i s = (if jump_key i then s\<lparr>loco := Jumping, vy := launch\<rparr> else s)"

text \<open>
  One tick of the table, for a walking cycle of \<open>n\<close> frames, pacing threshold
  \<open>freq\<close> (horizontal velocity 0) and launch velocity \<open>launch\<close>.
\<close>

definition spec_step :: "int \<Rightarrow> int \<Rightarrow> 'v \<Rightarrow> input \<Rightarrow> int \<Rightarrow> 'v ctrl \<Rightarrow> 'v ctrl" where
  "spec_step n freq launch i now s =
     (case loco s of
        Standing \<Rightarrow>
          jump_entry launch i
            (if right_key i \<or> left_key i
             then s\<lparr>loco := Walking, face := turn i (face s), cursor := 0, anim_timer := now\<rparr>
             else s)
      | Walking \<Rightarrow>
          jump_entry launch i
            ((if freq < now - anim_timer s
              then s\<lparr>cursor := (cursor s + 1) mod n, anim_timer := now\<rparr>
              else s)\<lparr>face := turn i (face s)\<rparr>)
      | Jumping \<Rightarrow> s\<lparr>face := turn i (face s)\<rparr>)"

definition ctrl_of :: "module \<Rightarrow> 'img player \<Rightarrow> pyval ctrl" where
  "ctrl_of cm p =
     \<lparr>loco = (if state p = c_STANDING cm then Standing
             else if state p = c_WALKING cm then Walking else Jumping),
      face = (if direction p = c_RIGHT cm then FaceRight else FaceLeft),
      cursor = index p, anim_timer = timer p, vy = y_vel p\<rparr>"

definition input_of :: "keys \<Rightarrow> input" where
  "input_of keys = \<lparr>right_key = keys K_RIGHT, left_key = keys K_LEFT, jump_key = keys K_SPACE\<rparr>"

fun spec_run :: "int \<Rightarrow> int \<Rightarrow> 'v \<Rightarrow> (keys \<times> int \<times> int) list \<Rightarrow> 'v ctrl \<Rightarrow> 'v ctrl" where
  "spec_run n freq launch [] s = s"
| "spec_run n freq launch ((keys, t, dt) # ticks) s = spec_run n freq launch ticks (spec_step n freq launch (input_of keys) t s)"

text \<open>
  The spec's pacing threshold for a horizontal velocity \<open>xv\<close> and a delta \<open>dt\<close>
  (section 4.3), and the table run with it: the velocity is fixed along a run (no
  method changes it) while the delta is the one of each tick.
\<close>

definition threshold :: "int \<Rightarrow> int \<Rightarrow> int \<Rightarrow> int" where
  "threshold freq xv dt = freq - xv * 11 * dt * sgn xv"

fun spec_run_v :: "int \<Rightarrow> int \<Rightarrow> int \<Rightarrow> 'v \<Rightarrow> (keys \<times> int \<times> int) list \<Rightarrow> 'v ctrl \<Rightarrow> 'v ctrl" where
  "spec_run_v n freq xv launch [] s = s"
| "spec_run_v n freq xv launch ((keys, t, dt) # ticks) s =
     spec_run_v n freq xv launch ticks (spec_step n (threshold freq xv dt) launch (input_of keys) t s)"

definition walk_len :: "module \<Rightarrow> 'img player \<Rightarrow> int" where
  "walk_len cm p = int (length (the (walking_image_dict p (c_RIGHT cm))))"

lemma walk_len_direction:
  assumes "player_wf cm p"
  shows "int (length (the (walking_image_dict p (direction p)))) = walk_len cm p"
  using assms by (auto simp add: player_wf_def walk_len_def)

lemma threshold_abs: "threshold freq xv dt = freq - \<bar>xv\<bar> * 11 * dt"
proof -
  have "\<bar>xv\<bar> * 11 * dt = xv * 11 * dt * sgn xv"
    by (cases "xv < 0"; cases "xv = 0") (simp_all add: abs_if)
  then show ?thesis unfolding threshold_def by (simp only:)
qed

lemma spec_run_v_zero: "spec_run_v n freq 0 launch ticks s = spec_run n freq launch ticks s"
proof (induction ticks arbitrary: s)
  case (Cons tick ticks)
  then show ?case by (cases tick) (simp add: threshold_def)
qed simp

lemma update_step_refines_wf:
  assumes ok: "player_consts_ok cm" and wf: "player_wf cm p"
  shows "map_sum id (ctrl_of cm) (update cm keys t dt p) =
    Inr (spec_step (walk_len cm p) (threshold (c_SLOWEST_FREQUENCY cm) (x_vel p) dt) (c_START_JUMP_VEL cm)
      (input_of keys) t (ctrl_of cm p))"
proof -
  note d = consts_ok_distinct [OF ok]
  from player_wf_states [OF wf]
  consider (S) "state p = c_STANDING cm" | (W) "state p = c_WALKING cm" | (J) "state p = c_JUMPING cm"
    by blast
  then show ?thesis
  proof cases
    case S
    with ok wf d show ?thesis
      by (simp add: update_standing spec_step_def ctrl_of_def input_of_def jump_entry_def turn_def Let_def)
  next
    case W
    from wf obtain il where il: "walking_image_dict p (direction p) = Some il"
      and i0: "0 \<le> index p" and i1: "index p < int (length il)"
      by (rule player_wf_frames)
    from i0 i1 have wrap: "(if index p < int (length il) - 1 then index p + 1 else 0) = (index p + 1) mod int (length il)"
      by (rule index_wrap)
    from walk_len_direction [OF wf] il have "int (length il) = walk_len cm p" by simp
    with W ok wf d il wrap show ?thesis
      by (simp add: update_walking_wf spec_step_def ctrl_of_def input_of_def jump_entry_def turn_def Let_def
          threshold_abs)
  next
    case J
    with ok wf d show ?thesis
      by (simp add: update_jumping spec_step_def ctrl_of_def input_of_def turn_def)
  qed
qed

lemma update_step_refines:
  assumes ok: "player_consts_ok cm" and inv: "player_inv cm p"
  shows "map_sum id (ctrl_of cm) (update cm keys t dt p) =
    Inr (spec_step (walk_len cm p) (c_SLOWEST_FREQUENCY cm) (c_START_JUMP_VEL cm) (input_of keys) t (ctrl_of cm p))"
  using update_step_refines_wf [OF ok player_inv_wf [OF inv], of keys t dt] inv
  by (simp add: player_inv_def threshold_def)

lemma update_run_refines_v:
  assumes ok: "player_consts_ok cm" and wf: "player_wf cm p"
  shows "map_sum id (ctrl_of cm) (update_run cm ticks p) =
    Inr (spec_run_v (walk_len cm p) (c_SLOWEST_FREQUENCY cm) (x_vel p) (c_START_JUMP_VEL cm) ticks (ctrl_of cm p))"
  using wf
proof (induction ticks arbitrary: p)
  case Nil
  then show ?case by simp
next
  case (Cons tick ticks)
  obtain keys t dt where tick: "tick = (keys, t, dt)" by (cases tick) auto
  from ok Cons.prems obtain p1 where u: "update cm keys t dt p = Inr p1" and wf1: "player_wf cm p1"
    using update_step_wf by blast
  from update_step_refines_wf [OF ok Cons.prems, of keys t dt] u
  have step: "ctrl_of cm p1 = spec_step (walk_len cm p) (threshold (c_SLOWEST_FREQUENCY cm) (x_vel p) dt)
      (c_START_JUMP_VEL cm) (input_of keys) t (ctrl_of cm p)"
    by simp
  from update_frame [OF ok Cons.prems u] have "walk_len cm p1 = walk_len cm p \<and> x_vel p1 = x_vel p"
    by (simp add: walk_len_def)
  moreover from u tick have "update_run cm (tick # ticks) p = update_run cm ticks p1" by simp
  ultimately show ?case using Cons.IH [OF wf1] step tick by simp
qed

lemma update_run_refines:
  assumes ok: "player_consts_ok cm" and inv: "player_inv cm p"
  shows "map_sum id (ctrl_of cm) (update_run cm ticks p) =
    Inr (spec_run (walk_len cm p) (c_SLOWEST_FREQUENCY cm) (c_START_JUMP_VEL cm) ticks (ctrl_of cm p))"
proof -
  from inv have "x_vel p = 0" by (simp add: player_inv_def)
  with update_run_refines_v [OF ok player_inv_wf [OF inv], of ticks] show ?thesis
    by (simp add: spec_run_v_zero)
qed

lemma spec_step_loco_mono: "loco s \<le> loco (spec_step n freq launch i now s)"
  by (cases "loco s") (simp_all add: spec_step_def jump_entry_def less_eq_loco_def)

lemma spec_run_v_loco_mono: "loco s \<le> loco (spec_run_v n freq xv launch ticks s)"
proof (induction n freq xv launch ticks s rule: spec_run_v.induct)
  case (2 n freq xv launch keys t dt ticks s)
  have "loco s \<le> loco (spec_step n (threshold freq xv dt) launch (input_of keys) t s)"
    by (rule spec_step_loco_mono)
  with 2 show ?case by (metis order_trans spec_run_v.simps(2))
qed simp

lemma demo_walk_len: "walk_len constants_with_jumping demo_player = 11"
proof -
  from demo_dicts obtain sheet right where "make_walking_image_list pixel_api sheet False = Inr right"
    "walking_image_dict demo_player (c_RIGHT constants_with_jumping) = Some right"
    by (auto simp add: make_walking_image_dict_Inr_iff constants_with_jumping_ok constants_with_jumping_vals)
  then show ?thesis by (simp add: walk_len_def make_walking_image_list_cells)
qed

text \<open>
  C4. Refinement: on every well-formed object, running \<open>update\<close> over any sequence of
  ticks never raises, and the abstract state read off the result is the state the spec's
  transition table and pacing rule reach from the abstract state of the start, with the
  cycle length, \<open>SLOWEST_FREQUENCY\<close> and \<open>START_JUMP_VEL\<close> of the object and module.
\<close>

theorem update_run_refines_spec:
  assumes "player_consts_ok cm" and "player_inv cm p"
  shows "\<exists>p'. update_run cm ticks p = Inr p' \<and>
    ctrl_of cm p' = spec_run (walk_len cm p) (c_SLOWEST_FREQUENCY cm) (c_START_JUMP_VEL cm) ticks (ctrl_of cm p)"
  using update_run_refines [OF assms, of ticks] by (cases "update_run cm ticks p") auto

theorem update_run_refines_spec_witness:
  "\<exists>p'. update_run constants_with_jumping [(\<lambda>k. k = K_RIGHT, 0, 16), (\<lambda>_. False, 50, 16)] demo_player = Inr p' \<and>
     ctrl_of constants_with_jumping p' =
       spec_run (walk_len constants_with_jumping demo_player) 100 (PInt (-1020))
         [(\<lambda>k. k = K_RIGHT, 0, 16), (\<lambda>_. False, 50, 16)] (ctrl_of constants_with_jumping demo_player)"
  using update_run_refines_spec [OF constants_with_jumping_ok demo_inv,
      of "[(\<lambda>k. k = K_RIGHT, 0, 16), (\<lambda>_. False, 50, 16)]"]
  by (simp only: constants_with_jumping_vals)

end
