(* ===== verification/Pacing.thy ===== *)
theory Pacing
  imports Controller_Spec
begin

text \<open>
  Animation pacing of the walking cycle (\<open>animate\<close> and \<open>get_animation_speed\<close> of
  \<open>src/data/sprites/player.py\<close>) for every horizontal velocity, the extension point
  the spec names in section 4.3: \<open>x_vel\<close> is never changed by the player code but a
  collaborator may set it. The threshold is bounded by \<open>SLOWEST_FREQUENCY\<close>; a whole run
  refines the spec's table with the velocity's threshold; a run of ticks spaced beyond the
  threshold advances the cursor by one per tick, so the cursor visits every frame of the
  cycle. At high speed the threshold becomes negative and the cursor advances on ticks at
  which no time has elapsed.
\<close>

text \<open>
  A run of ticks each of which comes more than the threshold after the previous one
  (the first after \<open>prev\<close>) and none of which presses Jump.
\<close>

fun paced :: "int \<Rightarrow> int \<Rightarrow> int \<Rightarrow> (keys \<times> int \<times> int) list \<Rightarrow> bool" where
  "paced freq xv prev [] = True"
| "paced freq xv prev ((keys, t, dt) # ticks) \<longleftrightarrow>
     threshold freq xv dt < t - prev \<and> \<not> keys K_SPACE \<and> paced freq xv t ticks"

subsection \<open>Helper lemmas\<close>

lemma player_wf_x_vel [simp]: "player_wf cm (p\<lparr>x_vel := v\<rparr>) = player_wf cm p"
  by (simp add: player_wf_def)

lemma ctrl_of_walking_iff:
  assumes ok: "player_consts_ok cm" and wf: "player_wf cm p"
  shows "loco (ctrl_of cm p) = Walking \<longleftrightarrow> state p = c_WALKING cm"
  using player_wf_states [OF wf] consts_ok_distinct [OF ok] by (auto simp add: ctrl_of_def)

lemma ctrl_of_fields [simp]:
  "cursor (ctrl_of cm p) = index p" "anim_timer (ctrl_of cm p) = timer p" "vy (ctrl_of cm p) = y_vel p"
  by (simp_all add: ctrl_of_def)

lemma jump_entry_fields [simp]:
  "cursor (jump_entry l i s) = cursor s" "anim_timer (jump_entry l i s) = anim_timer s"
  by (simp_all add: jump_entry_def)

lemma walk_len_pos: "player_wf cm p \<Longrightarrow> 0 < walk_len cm p"
  by (auto simp add: player_wf_def walk_len_def)

lemma paced_take: "paced freq xv prev ticks \<Longrightarrow> paced freq xv prev (take k ticks)"
proof (induction freq xv prev ticks arbitrary: k rule: paced.induct)
  case (2 freq xv prev keys t dt ticks)
  then show ?case by (cases k) simp_all
qed simp

lemma spec_run_v_paced:
  assumes "loco s = Walking" "paced freq xv (anim_timer s) ticks" "0 \<le> cursor s" "cursor s < n"
  shows "loco (spec_run_v n freq xv launch ticks s) = Walking \<and>
    cursor (spec_run_v n freq xv launch ticks s) = (cursor s + int (length ticks)) mod n"
  using assms
proof (induction ticks arbitrary: s)
  case Nil
  then show ?case by simp
next
  case (Cons tick ticks)
  obtain keys t dt where tick: "tick = (keys, t, dt)" by (cases tick) auto
  define s' where "s' = spec_step n (threshold freq xv dt) launch (input_of keys) t s"
  from Cons.prems tick have s': "loco s' = Walking \<and> anim_timer s' = t \<and> cursor s' = (cursor s + 1) mod n"
    by (simp add: s'_def spec_step_def jump_entry_def input_of_def)
  with Cons.prems tick have "paced freq xv (anim_timer s') ticks" "0 \<le> cursor s'" "cursor s' < n"
    by simp_all
  with Cons.IH [of s'] s' tick show ?case
    by (simp add: s'_def mod_add_left_eq add.assoc)
qed

lemma update_run_paced:
  assumes ok: "player_consts_ok cm" and wf: "player_wf cm p" and st: "state p = c_WALKING cm"
    and pc: "paced (c_SLOWEST_FREQUENCY cm) (x_vel p) (timer p) ticks"
  shows "\<exists>p'. update_run cm ticks p = Inr p' \<and> state p' = c_WALKING cm \<and>
    index p' = (index p + int (length ticks)) mod walk_len cm p"
proof -
  from update_run_refines_v [OF ok wf, of ticks] obtain p' where u: "update_run cm ticks p = Inr p'"
    and c: "ctrl_of cm p' = spec_run_v (walk_len cm p) (c_SLOWEST_FREQUENCY cm) (x_vel p) (c_START_JUMP_VEL cm)
      ticks (ctrl_of cm p)"
    by (cases "update_run cm ticks p") auto
  from wf have r: "0 \<le> index p" "index p < walk_len cm p"
    using walk_len_direction [OF wf] by (auto elim: player_wf_frames)
  have "loco (ctrl_of cm p) = Walking" using ctrl_of_walking_iff [OF ok wf] st by simp
  then have "loco (spec_run_v (walk_len cm p) (c_SLOWEST_FREQUENCY cm) (x_vel p) (c_START_JUMP_VEL cm) ticks
      (ctrl_of cm p)) = Walking \<and>
    cursor (spec_run_v (walk_len cm p) (c_SLOWEST_FREQUENCY cm) (x_vel p) (c_START_JUMP_VEL cm) ticks
      (ctrl_of cm p)) = (cursor (ctrl_of cm p) + int (length ticks)) mod walk_len cm p"
    by (rule spec_run_v_paced) (simp_all add: pc r)
  then have "loco (ctrl_of cm p') = Walking \<and> index p' = (index p + int (length ticks)) mod walk_len cm p"
    by (simp add: c [symmetric])
  moreover have "player_wf cm p'" using update_run_wf [OF ok wf u] by simp
  ultimately show ?thesis using u ctrl_of_walking_iff [OF ok] by blast
qed

lemma demo_walking:
  "\<exists>p1. update constants_with_jumping (\<lambda>k. k = K_RIGHT) 0 16 demo_player = Inr p1 \<and>
     player_wf constants_with_jumping p1 \<and> state p1 = PStr ''walking'' \<and> timer p1 = 0 \<and> index p1 = 0 \<and>
     x_vel p1 = 0 \<and> walk_len constants_with_jumping p1 = 11"
proof -
  from demo_walk obtain p1 where u: "update constants_with_jumping (\<lambda>k. k = K_RIGHT) 0 16 demo_player = Inr p1"
    and inv1: "player_inv constants_with_jumping p1" and f: "state p1 = c_WALKING constants_with_jumping"
      "timer p1 = 0" "index p1 = 0"
    by blast
  from update_frame [OF constants_with_jumping_ok player_inv_wf [OF demo_inv] u]
  have "walk_len constants_with_jumping p1 = 11"
    using demo_walk_len by (simp add: walk_len_def)
  with u inv1 f show ?thesis by (auto simp add: player_inv_def constants_with_jumping_vals)
qed

subsection \<open>Properties\<close>

text \<open>
  C21. Bounds of the pacing threshold for a non-negative delta: \<open>get_animation_speed\<close>
  returns an int no greater than \<open>SLOWEST_FREQUENCY\<close>, strictly smaller exactly when
  the player moves horizontally and time has passed, so a moving player never animates
  slower than a still one.
\<close>

theorem animation_threshold_bounds:
  assumes ok: "player_consts_ok cm" and dt: "0 \<le> dt"
  shows "\<exists>th. get_animation_speed cm xv dt = Inr (PInt th) \<and> th \<le> c_SLOWEST_FREQUENCY cm \<and>
    (th < c_SLOWEST_FREQUENCY cm \<longleftrightarrow> xv \<noteq> 0 \<and> 0 < dt)"
proof -
  have "0 \<le> \<bar>xv\<bar> * 11 * dt" using dt by simp
  moreover have "0 < \<bar>xv\<bar> * 11 * dt \<longleftrightarrow> xv \<noteq> 0 \<and> 0 < dt"
    using dt by (auto simp add: zero_less_mult_iff)
  ultimately show ?thesis using ok by (simp add: get_animation_speed_Inr)
qed

theorem animation_threshold_bounds_witness:
  "\<exists>th. get_animation_speed constants_with_jumping 3 2 = Inr (PInt th) \<and> th < 100"
  using animation_threshold_bounds [OF constants_with_jumping_ok, of 2 3]
  by (auto simp add: constants_with_jumping_vals)

text \<open>
  C5. Refinement for every horizontal velocity: on a well-formed object whose
  \<open>x_vel\<close> a collaborator may have set, a run of \<open>update\<close> over any ticks never raises,
  keeps the object well formed and its velocity, and its abstract state is the one the
  spec's table reaches with the threshold \<open>SLOWEST_FREQUENCY - x_vel * 11 * dt * sign(x_vel)\<close>
  of each tick's delta.
\<close>

theorem update_run_refines_spec_velocity:
  assumes ok: "player_consts_ok cm" and wf: "player_wf cm p"
  shows "\<exists>p'. update_run cm ticks p = Inr p' \<and> player_wf cm p' \<and> x_vel p' = x_vel p \<and>
    ctrl_of cm p' = spec_run_v (walk_len cm p) (c_SLOWEST_FREQUENCY cm) (x_vel p) (c_START_JUMP_VEL cm) ticks
      (ctrl_of cm p)"
proof -
  from update_run_refines_v [OF ok wf, of ticks] obtain p' where u: "update_run cm ticks p = Inr p'"
    and c: "ctrl_of cm p' = spec_run_v (walk_len cm p) (c_SLOWEST_FREQUENCY cm) (x_vel p) (c_START_JUMP_VEL cm)
      ticks (ctrl_of cm p)"
    by (cases "update_run cm ticks p") auto
  with update_run_wf [OF ok wf u] show ?thesis by blast
qed

theorem update_run_refines_spec_velocity_witness:
  "\<exists>p1 p'. update constants_with_jumping (\<lambda>k. k = K_RIGHT) 0 16 demo_player = Inr p1 \<and>
     update_run constants_with_jumping [(\<lambda>_. False, 10, 16)] (p1\<lparr>x_vel := 5\<rparr>) = Inr p' \<and> index p' = 1"
proof -
  from demo_walking obtain p1 where u: "update constants_with_jumping (\<lambda>k. k = K_RIGHT) 0 16 demo_player = Inr p1"
    and wf1: "player_wf constants_with_jumping p1" and f: "state p1 = PStr ''walking''" "timer p1 = 0"
      "index p1 = 0" "walk_len constants_with_jumping p1 = 11"
    by blast
  have "player_wf constants_with_jumping (p1\<lparr>x_vel := 5\<rparr>)" using wf1 by simp
  from update_run_refines_spec_velocity [OF constants_with_jumping_ok this, of "[(\<lambda>_. False, 10, 16)]"]
  obtain p' where r: "update_run constants_with_jumping [(\<lambda>_. False, 10, 16)] (p1\<lparr>x_vel := 5\<rparr>) = Inr p'"
    and c: "ctrl_of constants_with_jumping p' = spec_run_v (walk_len constants_with_jumping (p1\<lparr>x_vel := 5\<rparr>)) 100 5
      (PInt (-1020)) [(\<lambda>_. False, 10, 16)] (ctrl_of constants_with_jumping (p1\<lparr>x_vel := 5\<rparr>))"
    by (auto simp add: constants_with_jumping_vals)
  have "walk_len constants_with_jumping (p1\<lparr>x_vel := 5\<rparr>) = 11" using f by (simp add: walk_len_def)
  with c f have "cursor (ctrl_of constants_with_jumping p') = 1"
    by (simp add: spec_step_def ctrl_of_def constants_with_jumping_vals threshold_def input_of_def turn_def)
  with u r show ?thesis by auto
qed

text \<open>
  C22. At high speed the pacing gate is not a gate: once \<open>|x_vel| * 11 * dt\<close> exceeds
  \<open>SLOWEST_FREQUENCY\<close> the threshold is negative, and a walking tick advances the cursor
  even when the clock has not moved since the last advance.
\<close>

theorem fast_walk_advances_without_elapsed_time:
  assumes ok: "player_consts_ok cm" and wf: "player_wf cm p" and st: "state p = c_WALKING cm"
    and fast: "c_SLOWEST_FREQUENCY cm < \<bar>x_vel p\<bar> * 11 * dt"
  shows "\<exists>p'. update cm keys (timer p) dt p = Inr p' \<and>
    index p' = (index p + 1) mod walk_len cm p \<and> timer p' = timer p"
proof -
  from update_step_refines_wf [OF ok wf, of keys "timer p" dt] obtain p' where u: "update cm keys (timer p) dt p = Inr p'"
    and c: "ctrl_of cm p' = spec_step (walk_len cm p) (threshold (c_SLOWEST_FREQUENCY cm) (x_vel p) dt)
      (c_START_JUMP_VEL cm) (input_of keys) (timer p) (ctrl_of cm p)"
    by (cases "update cm keys (timer p) dt p") auto
  have "loco (ctrl_of cm p) = Walking" using ctrl_of_walking_iff [OF ok wf] st by simp
  with fast have "cursor (ctrl_of cm p') = (index p + 1) mod walk_len cm p \<and> anim_timer (ctrl_of cm p') = timer p"
    by (simp add: c spec_step_def threshold_abs)
  with u show ?thesis by simp
qed

theorem fast_walk_advances_without_elapsed_time_witness:
  "\<exists>p1 p'. update constants_with_jumping (\<lambda>k. k = K_RIGHT) 0 16 demo_player = Inr p1 \<and>
     update constants_with_jumping (\<lambda>_. False) 0 16 (p1\<lparr>x_vel := 1\<rparr>) = Inr p' \<and> index p' = 1 \<and> timer p' = 0"
proof -
  from demo_walking obtain p1 where u: "update constants_with_jumping (\<lambda>k. k = K_RIGHT) 0 16 demo_player = Inr p1"
    and wf1: "player_wf constants_with_jumping p1" and f: "state p1 = PStr ''walking''" "timer p1 = 0"
      "index p1 = 0" "walk_len constants_with_jumping p1 = 11"
    by blast
  have wf: "player_wf constants_with_jumping (p1\<lparr>x_vel := 1\<rparr>)" using wf1 by simp
  have st: "state (p1\<lparr>x_vel := 1\<rparr>) = c_WALKING constants_with_jumping" using f by (simp add: constants_with_jumping_vals)
  have fast: "c_SLOWEST_FREQUENCY constants_with_jumping < \<bar>x_vel (p1\<lparr>x_vel := 1\<rparr>)\<bar> * 11 * 16"
    by (simp add: constants_with_jumping_vals)
  from fast_walk_advances_without_elapsed_time [OF constants_with_jumping_ok wf st fast, of "\<lambda>_. False"] f u
  show ?thesis by (auto simp add: walk_len_def)
qed

text \<open>
  C20. The pacing rule over a run (spec P6 tick after tick, for any velocity): from a walking,
  well-formed object, a run of ticks each more than the threshold after the previous one
  and none pressing Jump keeps the player walking and advances the cursor by exactly one
  per tick, modulo the cycle length.
\<close>

theorem paced_walk_cursor:
  assumes ok: "player_consts_ok cm" and wf: "player_wf cm p" and st: "state p = c_WALKING cm"
    and pc: "paced (c_SLOWEST_FREQUENCY cm) (x_vel p) (timer p) ticks"
  shows "\<exists>p'. update_run cm ticks p = Inr p' \<and> state p' = c_WALKING cm \<and>
    index p' = (index p + int (length ticks)) mod walk_len cm p"
  using update_run_paced [OF ok wf st pc] .

theorem paced_walk_cursor_witness:
  "\<exists>p1 p'. update constants_with_jumping (\<lambda>k. k = K_RIGHT) 0 16 demo_player = Inr p1 \<and>
     update_run constants_with_jumping [(\<lambda>_. False, 101, 16), (\<lambda>_. False, 202, 16), (\<lambda>_. False, 303, 16)] p1 = Inr p' \<and>
     index p' = 3 \<and> state p' = PStr ''walking''"
proof -
  from demo_walking obtain p1 where u: "update constants_with_jumping (\<lambda>k. k = K_RIGHT) 0 16 demo_player = Inr p1"
    and wf1: "player_wf constants_with_jumping p1" and f: "state p1 = PStr ''walking''" "timer p1 = 0"
      "index p1 = 0" "x_vel p1 = 0" "walk_len constants_with_jumping p1 = 11"
    by blast
  have st: "state p1 = c_WALKING constants_with_jumping" using f by (simp add: constants_with_jumping_vals)
  have "paced (c_SLOWEST_FREQUENCY constants_with_jumping) (x_vel p1) (timer p1)
      [(\<lambda>_. False, 101, 16), (\<lambda>_. False, 202, 16), (\<lambda>_. False, 303, 16)]"
    using f by (simp add: constants_with_jumping_vals threshold_def)
  from paced_walk_cursor [OF constants_with_jumping_ok wf1 st this] u f show ?thesis
    by (auto simp add: constants_with_jumping_vals)
qed

text \<open>
  C10. Liveness of the walking animation: from a walking, well-formed object, along a run
  of at least one cycle length minus one ticks spaced beyond the threshold without Jump,
  every frame index of the cycle is the cursor after some prefix of the run: the
  animation shows every frame.
\<close>

theorem walking_cursor_visits_every_frame:
  assumes ok: "player_consts_ok cm" and wf: "player_wf cm p" and st: "state p = c_WALKING cm"
    and pc: "paced (c_SLOWEST_FREQUENCY cm) (x_vel p) (timer p) ticks"
    and len: "walk_len cm p \<le> int (length ticks) + 1" and j: "0 \<le> j" "j < walk_len cm p"
  shows "\<exists>k \<le> length ticks. \<exists>pk. update_run cm (take k ticks) p = Inr pk \<and> state pk = c_WALKING cm \<and> index pk = j"
proof -
  define n where "n = walk_len cm p"
  have n: "0 < n" using walk_len_pos [OF wf] by (simp add: n_def)
  define k where "k = nat ((j - index p) mod n)"
  have kn: "int k = (j - index p) mod n" "int k < n" using n by (simp_all add: k_def)
  with len have kl: "k \<le> length ticks" by (simp add: n_def)
  from update_run_paced [OF ok wf st paced_take [OF pc, of k]] obtain pk
    where r: "update_run cm (take k ticks) p = Inr pk" "state pk = c_WALKING cm"
      and i: "index pk = (index p + int (length (take k ticks))) mod n"
    by (auto simp add: n_def)
  have "(index p + (j - index p) mod n) mod n = j" using j by (simp add: mod_add_right_eq n_def)
  with i kn kl have "index pk = j" by (simp add: min_def)
  with r kl show ?thesis by blast
qed

theorem walking_cursor_visits_every_frame_witness:
  "\<exists>p1. update constants_with_jumping (\<lambda>k. k = K_RIGHT) 0 16 demo_player = Inr p1 \<and>
     (\<exists>k \<le> 10. \<exists>pk. update_run constants_with_jumping (take k
        [(\<lambda>_. False, 101, 16), (\<lambda>_. False, 202, 16), (\<lambda>_. False, 303, 16), (\<lambda>_. False, 404, 16), (\<lambda>_. False, 505, 16), (\<lambda>_. False, 606, 16), (\<lambda>_. False, 707, 16), (\<lambda>_. False, 808, 16), (\<lambda>_. False, 909, 16), (\<lambda>_. False, 1010, 16)]) p1 = Inr pk \<and> state pk = PStr ''walking'' \<and> index pk = 7)"
proof -
  from demo_walking obtain p1 where u: "update constants_with_jumping (\<lambda>k. k = K_RIGHT) 0 16 demo_player = Inr p1"
    and wf1: "player_wf constants_with_jumping p1" and f: "state p1 = PStr ''walking''" "timer p1 = 0"
      "index p1 = 0" "x_vel p1 = 0" "walk_len constants_with_jumping p1 = 11"
    by blast
  have st: "state p1 = c_WALKING constants_with_jumping" using f by (simp add: constants_with_jumping_vals)
  have "paced (c_SLOWEST_FREQUENCY constants_with_jumping) (x_vel p1) (timer p1)
      [(\<lambda>_. False, 101, 16), (\<lambda>_. False, 202, 16), (\<lambda>_. False, 303, 16), (\<lambda>_. False, 404, 16), (\<lambda>_. False, 505, 16), (\<lambda>_. False, 606, 16), (\<lambda>_. False, 707, 16), (\<lambda>_. False, 808, 16), (\<lambda>_. False, 909, 16), (\<lambda>_. False, 1010, 16)]"
    using f by (simp add: constants_with_jumping_vals threshold_def)
  from walking_cursor_visits_every_frame [OF constants_with_jumping_ok wf1 st this, of 7] u f show ?thesis
    by (auto simp add: constants_with_jumping_vals eval_nat_numeral)
qed

end
