(* ===== verification/Runs.thy ===== *)
theory Runs
  imports Pacing
begin

text \<open>
  Whole runs of the game loop. Along a run the locomotion state only moves
  forward in the order Standing, Walking, Jumping; and every attribute of a reachable
  object holds a value of the kind the code assumes when it reads it (the state and
  direction among the module's names, \<open>y_vel\<close> 0 or the launch value,
  \<open>image_list\<close> absent or one of the two walking lists, \<open>image\<close> one of the object's
  own frames).
\<close>

text \<open>The frames an object owns: both poses and the walking cycle of either direction.\<close>

definition player_frames :: "module \<Rightarrow> 'img player \<Rightarrow> 'img set" where
  "player_frames cm p =
     (\<Union>d\<in>{c_RIGHT cm, c_LEFT cm}.
        {the (standing_image_dict p d), the (jumping_image_dict p d)} \<union> set (the (walking_image_dict p d)))"

definition attr_types :: "module \<Rightarrow> 'img player \<Rightarrow> bool" where
  "attr_types cm p \<longleftrightarrow>
     y_vel p \<in> {PInt 0, c_START_JUMP_VEL cm} \<and>
     image_list p \<in> {None, Some (the (walking_image_dict p (c_RIGHT cm))), Some (the (walking_image_dict p (c_LEFT cm)))} \<and>
     image_attr p \<in> player_frames cm p"

text \<open>What of a tick matters once the player has left Standing: Jump, the clock, the delta.\<close>

definition jump_view :: "keys \<times> int \<times> int \<Rightarrow> bool \<times> int \<times> int" where
  "jump_view tick = (case tick of (keys, t, dt) \<Rightarrow> (keys K_SPACE, t, dt))"

subsection \<open>Helper lemmas\<close>

lemma spec_step_arrows_irrelevant:
  assumes "loco s \<noteq> Standing" "loco s' = loco s" "cursor s' = cursor s" "anim_timer s' = anim_timer s"
    "vy s' = vy s" "jump_key i' = jump_key i"
  shows "loco (spec_step n f l i' t s') = loco (spec_step n f l i t s) \<and>
    cursor (spec_step n f l i' t s') = cursor (spec_step n f l i t s) \<and>
    anim_timer (spec_step n f l i' t s') = anim_timer (spec_step n f l i t s) \<and>
    vy (spec_step n f l i' t s') = vy (spec_step n f l i t s)"
  using assms by (cases "loco s") (simp_all add: spec_step_def jump_entry_def)

lemma spec_run_v_arrows_irrelevant:
  assumes "map jump_view ts' = map jump_view ts"
    and "loco s \<noteq> Standing" "loco s' = loco s" "cursor s' = cursor s" "anim_timer s' = anim_timer s" "vy s' = vy s"
  shows "loco (spec_run_v n f xv l ts' s') = loco (spec_run_v n f xv l ts s) \<and>
    cursor (spec_run_v n f xv l ts' s') = cursor (spec_run_v n f xv l ts s) \<and>
    anim_timer (spec_run_v n f xv l ts' s') = anim_timer (spec_run_v n f xv l ts s) \<and>
    vy (spec_run_v n f xv l ts' s') = vy (spec_run_v n f xv l ts s)"
proof -
  from assms(1) have "length ts' = length ts" by (metis length_map)
  then show ?thesis using assms
  proof (induction ts' ts arbitrary: s' s rule: list_induct2)
    case Nil
    then show ?case by simp
  next
    case (Cons a' ts' a ts)
    obtain k' t' d' k t d where a: "a' = (k', t', d')" "a = (k, t, d)" by (cases a', cases a) auto
    from Cons.prems(1) have m: "map jump_view ts' = map jump_view ts" and "jump_view a' = jump_view a"
      by simp_all
    with a have e: "k' K_SPACE = k K_SPACE" "t' = t" "d' = d" by (simp_all add: jump_view_def)
    let ?s1' = "spec_step n (threshold f xv d) l (input_of k') t s'" and ?s1 = "spec_step n (threshold f xv d) l (input_of k) t s"
    have step: "loco ?s1' = loco ?s1 \<and> cursor ?s1' = cursor ?s1 \<and> anim_timer ?s1' = anim_timer ?s1 \<and> vy ?s1' = vy ?s1"
      using Cons.prems e by (intro spec_step_arrows_irrelevant) (simp_all add: input_of_def)
    have "loco ?s1 \<noteq> Standing" using Cons.prems(2) spec_step_loco_mono [of s n "threshold f xv d" l "input_of k" t]
      by (cases "loco ?s1"; cases "loco s") (simp_all add: less_eq_loco_def)
    with Cons.IH [OF m _ step[THEN conjunct1]] step a e show ?case by simp
  qed
qed

lemma ctrl_of_loco_state:
  assumes ok: "player_consts_ok cm" and "player_wf cm p" "player_wf cm q"
    and "loco (ctrl_of cm p) = loco (ctrl_of cm q)"
  shows "state p = state q"
  using assms player_wf_states [of cm p] player_wf_states [of cm q] consts_ok_distinct [OF ok]
  by (auto simp add: ctrl_of_def split: if_splits)

lemma update_run_reachable:
  "reachable cm api gfx p \<Longrightarrow> update_run cm ticks p = Inr p' \<Longrightarrow> reachable cm api gfx p'"
proof (induction ticks arbitrary: p)
  case Nil
  then show ?case by simp
next
  case (Cons tick ticks)
  obtain keys t dt where tick: "tick = (keys, t, dt)" by (cases tick) auto
  with Cons.prems(2) obtain p1 where "update cm keys t dt p = Inr p1" "update_run cm ticks p1 = Inr p'"
    by (auto simp add: py_bind_Inr_iff)
  with Cons.prems(1) Cons.IH show ?case by (blast intro: reachable.tick)
qed

lemma update_run_Inr:
  assumes "player_consts_ok cm" "player_wf cm p"
  shows "\<exists>p'. update_run cm ticks p = Inr p'"
  using update_run_refines_v [OF assms, of ticks] by (cases "update_run cm ticks p") auto

lemma update_step_attrs:
  assumes ok: "player_consts_ok cm" and wf: "player_wf cm p" and upd: "update cm keys t dt p = Inr p'"
  shows "(y_vel p' = y_vel p \<or> y_vel p' = c_START_JUMP_VEL cm) \<and>
    (image_list p' = image_list p \<or> image_list p' = Some (the (walking_image_dict p (direction p)))) \<and>
    image_attr p' \<in> {the (standing_image_dict p (direction p)), the (jumping_image_dict p (direction p))} \<union>
      set (the (walking_image_dict p (direction p)))"
  using player_wf_states [OF wf]
proof (elim disjE)
  assume "state p = c_STANDING cm"
  with ok wf upd show ?thesis by (auto simp add: update_standing Let_def split: if_split_asm)
next
  assume st: "state p = c_WALKING cm"
  from wf obtain il where "walking_image_dict p (direction p) = Some il" "0 \<le> index p" "index p < int (length il)"
    by (rule player_wf_frames)
  with ok wf upd st show ?thesis by (auto simp add: update_walking_wf Let_def split: if_split_asm)
next
  assume "state p = c_JUMPING cm"
  with ok wf upd show ?thesis by (auto simp add: update_jumping split: if_split_asm)
qed

lemma direction_frames:
  "d \<in> {c_RIGHT cm, c_LEFT cm} \<Longrightarrow>
    {the (standing_image_dict p d), the (jumping_image_dict p d)} \<union> set (the (walking_image_dict p d)) \<subseteq>
      player_frames cm p"
  unfolding player_frames_def by blast

lemma update_attr_types:
  assumes ok: "player_consts_ok cm" and wf: "player_wf cm p" and a: "attr_types cm p"
    and upd: "update cm keys t dt p = Inr p'"
  shows "attr_types cm p'"
proof -
  from wf have d: "direction p \<in> {c_RIGHT cm, c_LEFT cm}" by (simp add: player_wf_def)
  note step = update_step_attrs [OF ok wf upd]
  from update_frame [OF ok wf upd] have fr: "player_frames cm p' = player_frames cm p"
    and w: "walking_image_dict p' = walking_image_dict p"
    by (simp_all add: player_frames_def)
  from step a have "y_vel p' \<in> {PInt 0, c_START_JUMP_VEL cm}" by (auto simp add: attr_types_def)
  moreover from step a d w have "image_list p' \<in> {None, Some (the (walking_image_dict p' (c_RIGHT cm))),
      Some (the (walking_image_dict p' (c_LEFT cm)))}"
    by (auto simp add: attr_types_def)
  moreover from step direction_frames [OF d, of p] fr have "image_attr p' \<in> player_frames cm p'"
    by blast
  ultimately show ?thesis by (simp add: attr_types_def)
qed

lemma player_init_attr_types:
  assumes ok: "player_consts_ok cm" and init: "player_init cm api gfx = Inr p"
  shows "attr_types cm p"
proof -
  from init ok have "y_vel p = PInt 0" "image_list p = None"
    and s: "standing_image_dict p (c_RIGHT cm) = Some (image_attr p)"
    by (auto simp add: player_init_Inr_iff)
  moreover from s have "image_attr p \<in> player_frames cm p"
    using direction_frames [of "c_RIGHT cm" cm p] by auto
  ultimately show ?thesis by (simp add: attr_types_def)
qed

lemma reachable_attrs:
  "reachable cm api gfx p \<Longrightarrow> player_consts_ok cm \<Longrightarrow> player_wf cm p \<and> attr_types cm p"
proof (induction rule: reachable.induct)
  case (init p)
  then show ?case by (simp add: player_init_inv player_init_attr_types)
next
  case (tick p keys t dt p')
  then show ?case using update_step_wf [of cm p keys t dt] update_attr_types [of cm p] by auto
qed


subsection \<open>Properties\<close>

text \<open>
  C11. Along any run from a well-formed object the locomotion state never moves back in the
  order Standing < Walking < Jumping: after a longer prefix of the ticks the state is at
  least as far as after a shorter one, so every run is Standing, then Walking, then
  Jumping, each phase possibly empty.
\<close>

theorem update_run_loco_monotone:
  assumes ok: "player_consts_ok cm" and wf: "player_wf cm p"
    and rk: "update_run cm (take k ticks) p = Inr pk" and rm: "update_run cm (take m ticks) p = Inr pm"
    and km: "k \<le> m"
  shows "loco (ctrl_of cm pk) \<le> loco (ctrl_of cm pm)"
proof -
  from km have "take m ticks = take k ticks @ take (m - k) (drop k ticks)"
    by (metis le_add_diff_inverse take_add)
  with rk rm have r: "update_run cm (take (m - k) (drop k ticks)) pk = Inr pm"
    by (simp add: update_run_append)
  from update_run_wf [OF ok wf rk] have wfk: "player_wf cm pk" by simp
  from update_run_refines_v [OF ok wfk, of "take (m - k) (drop k ticks)"] r
  have "ctrl_of cm pm = spec_run_v (walk_len cm pk) (c_SLOWEST_FREQUENCY cm) (x_vel pk) (c_START_JUMP_VEL cm)
      (take (m - k) (drop k ticks)) (ctrl_of cm pk)"
    by simp
  then show ?thesis by (simp add: spec_run_v_loco_mono)
qed

theorem update_run_loco_monotone_witness:
  "\<exists>p1 p3. update_run constants_with_jumping (take 1 [(\<lambda>k. k = K_RIGHT, 0, 16), (\<lambda>k. k = K_SPACE, 50, 16),
       (\<lambda>_. False, 100, 16)]) demo_player = Inr p1 \<and>
     update_run constants_with_jumping (take 3 [(\<lambda>k. k = K_RIGHT, 0, 16), (\<lambda>k. k = K_SPACE, 50, 16),
       (\<lambda>_. False, 100, 16)]) demo_player = Inr p3 \<and>
     loco (ctrl_of constants_with_jumping p1) \<le> loco (ctrl_of constants_with_jumping p3)"
proof -
  have wf: "player_wf constants_with_jumping demo_player" using demo_inv by simp
  obtain p1 where r1: "update_run constants_with_jumping (take 1 [(\<lambda>k. k = K_RIGHT, 0, 16), (\<lambda>k. k = K_SPACE, 50, 16),
       (\<lambda>_. False, 100, 16)]) demo_player = Inr p1"
    using update_run_Inr [OF constants_with_jumping_ok wf] by blast
  obtain p3 where r3: "update_run constants_with_jumping (take 3 [(\<lambda>k. k = K_RIGHT, 0, 16), (\<lambda>k. k = K_SPACE, 50, 16),
       (\<lambda>_. False, 100, 16)]) demo_player = Inr p3"
    using update_run_Inr [OF constants_with_jumping_ok wf] by blast
  from update_run_loco_monotone [OF constants_with_jumping_ok wf r1 r3] r1 r3 show ?thesis by auto
qed

text \<open>
  C9. Every reachable object holds values of the kinds the code assumes when it reads its
  attributes: the state is one of the three state names, the direction one of the two
  direction names, \<open>y_vel\<close> is 0 or \<open>c.START_JUMP_VEL\<close>, \<open>image_list\<close> is absent or
  one of the two walking lists, and \<open>image\<close>, the frame the renderer draws, is one of the
  object's own frames.
\<close>

theorem reachable_attribute_types:
  assumes "reachable cm api gfx p" and "player_consts_ok cm"
  shows "state p \<in> {c_STANDING cm, c_WALKING cm, c_JUMPING cm} \<and> direction p \<in> {c_RIGHT cm, c_LEFT cm} \<and>
    y_vel p \<in> {PInt 0, c_START_JUMP_VEL cm} \<and>
    image_list p \<in> {None, Some (the (walking_image_dict p (c_RIGHT cm))), Some (the (walking_image_dict p (c_LEFT cm)))} \<and>
    image_attr p \<in> player_frames cm p"
  using reachable_attrs [OF assms] unfolding player_wf_def attr_types_def by blast

theorem reachable_attribute_types_witness:
  "\<exists>p2. update constants_with_jumping (\<lambda>k. k = K_SPACE) 0 16 demo_player = Inr p2 \<and>
     y_vel p2 \<in> {PInt 0, PInt (-1020)} \<and> image_attr p2 \<in> player_frames constants_with_jumping p2"
proof -
  from demo_jump obtain p2 where u: "update constants_with_jumping (\<lambda>k. k = K_SPACE) 0 16 demo_player = Inr p2"
    by blast
  with demo_reachable have "reachable constants_with_jumping pixel_api demo_gfx p2" by (rule reachable.tick)
  from reachable_attribute_types [OF this constants_with_jumping_ok] u show ?thesis
    by (auto simp add: constants_with_jumping_vals)
qed


text \<open>
  C12. Scenario B over whole runs: once the player has left Standing, the arrow keys never
  affect the state, the animation cursor, the timer or the vertical velocity. Two runs
  from the same object whose ticks agree on Jump, clock and delta end with the same values
  of these four attributes, however the arrows were pressed, so a direction switch never
  resets or shifts the walking cycle.
\<close>

theorem run_ignores_arrows_after_standing:
  assumes ok: "player_consts_ok cm" and wf: "player_wf cm p" and st: "state p \<noteq> c_STANDING cm"
    and same: "map jump_view ticks1 = map jump_view ticks2"
    and r1: "update_run cm ticks1 p = Inr p1" and r2: "update_run cm ticks2 p = Inr p2"
  shows "state p1 = state p2 \<and> index p1 = index p2 \<and> timer p1 = timer p2 \<and> y_vel p1 = y_vel p2"
proof -
  let ?run = "\<lambda>ts. spec_run_v (walk_len cm p) (c_SLOWEST_FREQUENCY cm) (x_vel p) (c_START_JUMP_VEL cm) ts (ctrl_of cm p)"
  from update_run_refines_v [OF ok wf, of ticks1] r1 have c1: "ctrl_of cm p1 = ?run ticks1" by simp
  from update_run_refines_v [OF ok wf, of ticks2] r2 have c2: "ctrl_of cm p2 = ?run ticks2" by simp
  have "loco (ctrl_of cm p) \<noteq> Standing"
    using st player_wf_states [OF wf] by (auto simp add: ctrl_of_def)
  with same have "loco (?run ticks1) = loco (?run ticks2) \<and> cursor (?run ticks1) = cursor (?run ticks2) \<and>
      anim_timer (?run ticks1) = anim_timer (?run ticks2) \<and> vy (?run ticks1) = vy (?run ticks2)"
    by (intro spec_run_v_arrows_irrelevant) simp_all
  then have l: "loco (ctrl_of cm p1) = loco (ctrl_of cm p2)"
    and "index p1 = index p2 \<and> timer p1 = timer p2 \<and> y_vel p1 = y_vel p2"
    by (simp_all add: c1 [symmetric] c2 [symmetric])
  moreover from update_run_wf [OF ok wf r1] update_run_wf [OF ok wf r2]
  have "player_wf cm p1" "player_wf cm p2" by simp_all
  ultimately show ?thesis using ctrl_of_loco_state [OF ok] by blast
qed

theorem run_ignores_arrows_after_standing_witness:
  "\<exists>p1 q1 q2. update constants_with_jumping (\<lambda>k. k = K_RIGHT) 0 16 demo_player = Inr p1 \<and>
     update_run constants_with_jumping [(\<lambda>k. k = K_RIGHT, 150, 16), (\<lambda>k. k = K_LEFT, 300, 16)] p1 = Inr q1 \<and>
     update_run constants_with_jumping [(\<lambda>k. k = K_LEFT, 150, 16), (\<lambda>_. False, 300, 16)] p1 = Inr q2 \<and>
     index q1 = index q2 \<and> timer q1 = timer q2"
proof -
  from demo_walking obtain p1 where u: "update constants_with_jumping (\<lambda>k. k = K_RIGHT) 0 16 demo_player = Inr p1"
    and wf1: "player_wf constants_with_jumping p1" and f: "state p1 = PStr ''walking''"
    by blast
  have st: "state p1 \<noteq> c_STANDING constants_with_jumping" using f by (simp add: constants_with_jumping_vals)
  obtain q1 where r1: "update_run constants_with_jumping [(\<lambda>k. k = K_RIGHT, 150, 16), (\<lambda>k. k = K_LEFT, 300, 16)] p1 = Inr q1"
    using update_run_Inr [OF constants_with_jumping_ok wf1] by blast
  obtain q2 where r2: "update_run constants_with_jumping [(\<lambda>k. k = K_LEFT, 150, 16), (\<lambda>_. False, 300, 16)] p1 = Inr q2"
    using update_run_Inr [OF constants_with_jumping_ok wf1] by blast
  have "map jump_view [(\<lambda>k. k = K_RIGHT, 150, 16), (\<lambda>k. k = K_LEFT, 300, 16)] =
      map jump_view [(\<lambda>k. k = K_LEFT, 150, 16), (\<lambda>_. False, 300, 16)]"
    by (simp add: jump_view_def key_codes)
  from run_ignores_arrows_after_standing [OF constants_with_jumping_ok wf1 st this r1 r2] u r1 r2 show ?thesis
    by blast
qed

end
