(* ===== verification/Player_Properties.thy ===== *)
theory Player_Properties
  imports Demo
begin

text \<open>
  The properties of \<open>update\<close> on well-formed and reachable objects that the spec's
  section 4 and 8 state: it never raises, the reachable objects satisfy the spec's
  invariants, the transition table row by row (direction precedence, jump entry, pacing
  gate, the cursor across a direction switch), and the behaviours the spec leaves open
  (no way back to Standing, the absorbing jump, the unused jump button), each with a
  witness run on the demo object.
\<close>

text \<open>
  C2. From every object reachable from a successful construction, \<open>update\<close> returns
  normally for every keyboard snapshot, clock value and delta: the dispatch table has an
  entry for the current state and no lookup of the handlers fails (spec P1).
\<close>

theorem update_never_raises:
  assumes "player_consts_ok cm" and "reachable cm api gfx p"
  shows "\<exists>p'. update cm keys t dt p = Inr p' \<and> reachable cm api gfx p'"
proof -
  from assms(2,1) have "player_inv cm p" by (rule reachable_inv)
  with assms(1) obtain p' where "update cm keys t dt p = Inr p'"
    using update_step_inv by blast
  with assms(2) show ?thesis by (blast intro: reachable.tick)
qed

text \<open>
  C6. On a well-formed object in any state, when Right is pressed the object faces
  \<open>c.RIGHT\<close> after the tick, whether Left is pressed too or not (spec P2).
\<close>

theorem update_right_precedence:
  assumes ok: "player_consts_ok cm" and inv: "player_inv cm p" and r: "keys K_RIGHT"
  shows "\<exists>p'. update cm keys t dt p = Inr p' \<and> direction p' = c_RIGHT cm"
proof -
  from inv have "state p = c_STANDING cm \<or> state p = c_WALKING cm \<or> state p = c_JUMPING cm"
    by (simp add: player_inv_def player_wf_def)
  with ok inv r show ?thesis
    by (elim disjE) (simp_all add: update_standing update_walking update_jumping Let_def)
qed

text \<open>
  C7. Standing with only Jump pressed: the tick shows the standing frame and enters
  the jump, setting the state to \<open>c.JUMPING\<close> and \<open>y_vel\<close> to
  \<open>c.START_JUMP_VEL\<close>; no other attribute changes (spec P5, scenario C).
\<close>

theorem standing_jump_entry:
  assumes ok: "player_consts_ok cm" and inv: "player_inv cm p" and st: "state p = c_STANDING cm"
    and keys: "keys K_SPACE" "\<not> keys K_RIGHT" "\<not> keys K_LEFT"
  shows "update cm keys t dt p =
    Inr (p\<lparr>image_attr := the (standing_image_dict p (direction p)),
           state := c_JUMPING cm, y_vel := c_START_JUMP_VEL cm\<rparr>)"
  using ok inv st keys by (simp add: update_standing Let_def)

text \<open>
  C25. Standing with Jump and Right pressed together: the player ends Jumping, but the
  same tick also faced it Right and reset the walking cursor and timer, so jump entry
  does not leave direction and cursor untouched in this case.
\<close>

theorem standing_jump_with_arrow:
  assumes ok: "player_consts_ok cm" and inv: "player_inv cm p" and st: "state p = c_STANDING cm"
    and keys: "keys K_SPACE" "keys K_RIGHT"
  shows "\<exists>p'. update cm keys t dt p = Inr p' \<and> state p' = c_JUMPING cm \<and>
    direction p' = c_RIGHT cm \<and> index p' = 0 \<and> timer p' = t"
  using ok inv st keys by (simp add: update_standing Let_def)

text \<open>
  C26. Walking with only Jump pressed: the tick ends in \<open>c.JUMPING\<close> with the launch
  velocity and the direction unchanged (spec P5 from Walking).
\<close>

theorem walking_jump_entry:
  assumes ok: "player_consts_ok cm" and inv: "player_inv cm p" and st: "state p = c_WALKING cm"
    and keys: "keys K_SPACE" "\<not> keys K_RIGHT" "\<not> keys K_LEFT"
  shows "\<exists>p'. update cm keys t dt p = Inr p' \<and> state p' = c_JUMPING cm \<and>
    y_vel p' = c_START_JUMP_VEL cm \<and> direction p' = direction p"
  using ok inv st keys by (simp add: update_walking Let_def)

text \<open>
  C8. Animation pacing while Walking (x_vel is 0 on a well-formed object): when no more
  than \<open>SLOWEST_FREQUENCY\<close> has elapsed since the timer, the cursor and the timer
  stay; when more has elapsed, the cursor advances by one modulo the cycle length and
  the timer is set to the current time (spec P6).
\<close>

theorem walking_pacing_gate:
  assumes ok: "player_consts_ok cm" and inv: "player_inv cm p" and st: "state p = c_WALKING cm"
    and upd: "update cm keys t dt p = Inr p'"
  defines "n \<equiv> int (length (the (walking_image_dict p (direction p))))"
  shows "(t - timer p \<le> c_SLOWEST_FREQUENCY cm \<longrightarrow> index p' = index p \<and> timer p' = timer p) \<and>
    (c_SLOWEST_FREQUENCY cm < t - timer p \<longrightarrow> index p' = (index p + 1) mod n \<and> timer p' = t)"
proof -
  from inv obtain il where il: "walking_image_dict p (direction p) = Some il"
    and i0: "0 \<le> index p" and i1: "index p < int (length il)"
    by (rule player_inv_frames)
  from i0 i1 have "(if index p < int (length il) - 1 then index p + 1 else 0) = (index p + 1) mod int (length il)"
    by (rule index_wrap)
  with upd ok inv st il show ?thesis
    by (auto simp add: update_walking Let_def n_def)
qed

text \<open>
  C23. Jumping is never left: a tick in the jumping state keeps the state, the vertical
  velocity (no gravity is applied), the cursor and the timer.
\<close>

theorem jumping_is_absorbing:
  assumes ok: "player_consts_ok cm" and inv: "player_inv cm p" and st: "state p = c_JUMPING cm"
  shows "\<exists>p'. update cm keys t dt p = Inr p' \<and> state p' = c_JUMPING cm \<and> y_vel p' = y_vel p \<and>
    index p' = index p \<and> timer p' = timer p"
  using ok inv st by (simp add: update_jumping)

text \<open>
  C24. No tick returns a walking or jumping object to the standing state: Walking has
  no transition back to Standing when the keys are released.
\<close>

theorem never_back_to_standing:
  assumes ok: "player_consts_ok cm" and inv: "player_inv cm p" and st: "state p \<noteq> c_STANDING cm"
    and upd: "update cm keys t dt p = Inr p'"
  shows "state p' \<noteq> c_STANDING cm"
proof -
  from inv st have "state p = c_WALKING cm \<or> state p = c_JUMPING cm"
    by (simp add: player_inv_def player_wf_def)
  with ok inv upd show ?thesis
    using consts_ok_distinct [OF ok]
    by (elim disjE) (auto simp add: update_walking update_jumping Let_def split: if_splits)
qed

text \<open>
  C27. While Walking, the cursor, the timer and the displayed frame after a tick do not
  depend on the keys: switching direction does not reset the cursor (scenario B).
\<close>

theorem walking_cursor_ignores_keys:
  assumes ok: "player_consts_ok cm" and inv: "player_inv cm p" and st: "state p = c_WALKING cm"
    and u1: "update cm keys t dt p = Inr p1" and u2: "update cm keys' t dt p = Inr p2"
  shows "index p1 = index p2 \<and> timer p1 = timer p2 \<and> image_attr p1 = image_attr p2"
  using ok inv st u1 u2 by (auto simp add: update_walking Let_def)

text \<open>
  C28. While Walking, the frame displayed by a tick is the frame at the cursor, before it
  advances, in the walking list of the direction faced before the tick.
\<close>

theorem walking_shows_current_frame:
  assumes ok: "player_consts_ok cm" and inv: "player_inv cm p" and st: "state p = c_WALKING cm"
    and upd: "update cm keys t dt p = Inr p'"
  shows "image_attr p' = the (walking_image_dict p (direction p)) ! nat (index p)"
  using ok inv st upd by (auto simp add: update_walking Let_def)


text \<open>
  C3. Every reachable object satisfies the invariants the spec states: its state has an
  entry in the dispatch table, the cursor is a valid index into the walking list of the
  direction it faces, and \<open>x_vel\<close> is 0.
\<close>

theorem reachable_spec_invariants:
  assumes "reachable cm api gfx p" and "player_consts_ok cm"
  shows "state p \<in> dom (state_dict p) \<and>
    (\<exists>il. walking_image_dict p (direction p) = Some il \<and> 0 \<le> index p \<and> index p < int (length il)) \<and>
    x_vel p = 0"
proof -
  from assms have inv: "player_inv cm p" by (rule reachable_inv)
  then obtain il where "walking_image_dict p (direction p) = Some il" "0 \<le> index p" "index p < int (length il)"
    by (rule player_inv_frames)
  moreover from inv have "state p \<in> dom (state_dict p) \<and> x_vel p = 0"
    by (auto simp add: player_inv_def player_wf_def)
  ultimately show ?thesis by blast
qed

text \<open>
  C30. A successful construction yields a Standing object facing \<open>c.RIGHT\<close>, cursor and
  timer 0, no velocity, showing the right standing pose, at the rectangle anchored at
  \<open>y = 535\<close> with the pose's size, and no \<open>image_list\<close> attribute yet.
\<close>

theorem player_init_state:
  assumes "player_consts_ok cm" and "player_init cm api gfx = Inr p"
  shows "state p = c_STANDING cm \<and> direction p = c_RIGHT cm \<and> index p = 0 \<and> timer p = 0 \<and>
    x_vel p = 0 \<and> y_vel p = PInt 0 \<and> standing_image_dict p (c_RIGHT cm) = Some (image_attr p) \<and>
    rect p = \<lparr>rect_x = 0, rect_y = 535, rect_w = fst (get_size api (image_attr p)),
              rect_h = snd (get_size api (image_attr p))\<rparr> \<and> image_list p = None"
  using assms by (auto simp add: player_init_Inr_iff)

text \<open>
  C31. \<open>update\<close> never reads the configured \<open>JUMP_BUTTON\<close> key (\<open>pg.K_a\<close>): the
  result is the same whatever that key's state; jumping is bound to Space in the code.
\<close>

theorem update_ignores_jump_button:
  "update cm (keys(K_a := b)) t dt p = update cm keys t dt p"
proof -
  have "standing cm (keys(K_a := b)) t dt p = standing cm keys t dt p"
    "walking cm (keys(K_a := b)) t dt p = walking cm keys t dt p"
    "jumping cm (keys(K_a := b)) t dt p = jumping cm keys t dt p"
    by (simp_all add: standing_def walking_def jumping_def key_codes cong: if_cong)
  then show ?thesis by (simp add: update_def cong: state_method.case_cong)
qed

subsection \<open>Witnesses\<close>

theorem update_never_raises_witness:
  "\<exists>p'. update constants_with_jumping (\<lambda>_. False) 10 16 demo_player = Inr p' \<and>
     reachable constants_with_jumping pixel_api demo_gfx p'"
  by (rule update_never_raises [OF constants_with_jumping_ok demo_reachable])

theorem reachable_spec_invariants_witness:
  "state demo_player \<in> dom (state_dict demo_player) \<and> x_vel demo_player = 0"
  using reachable_spec_invariants [OF demo_reachable constants_with_jumping_ok] by blast

theorem update_right_precedence_witness:
  "\<exists>p'. update constants_with_jumping (\<lambda>k. k = K_RIGHT \<or> k = K_LEFT) 0 16 demo_player = Inr p' \<and>
     direction p' = PStr ''right''"
  using update_right_precedence [OF constants_with_jumping_ok demo_inv, of "\<lambda>k. k = K_RIGHT \<or> k = K_LEFT" 0 16]
  by (simp add: constants_with_jumping_vals)

theorem standing_jump_entry_witness:
  "update constants_with_jumping (\<lambda>k. k = K_SPACE) 0 16 demo_player =
     Inr (demo_player\<lparr>image_attr := the (standing_image_dict demo_player (direction demo_player)),
           state := PStr ''jumping'', y_vel := PInt (-1020)\<rparr>)"
  using standing_jump_entry [OF constants_with_jumping_ok demo_inv, of "\<lambda>k. k = K_SPACE" 0 16] demo_fields
  by (simp add: constants_with_jumping_vals key_codes)

theorem standing_jump_with_arrow_witness:
  "\<exists>p'. update constants_with_jumping (\<lambda>k. k = K_SPACE \<or> k = K_RIGHT) 7 16 demo_player = Inr p' \<and>
     state p' = PStr ''jumping'' \<and> index p' = 0 \<and> timer p' = 7"
  using standing_jump_with_arrow [OF constants_with_jumping_ok demo_inv, of "\<lambda>k. k = K_SPACE \<or> k = K_RIGHT" 7 16]
    demo_fields
  by (simp add: constants_with_jumping_vals) blast

theorem player_init_state_witness:
  "state demo_player = PStr ''standing'' \<and> image_list demo_player = None"
  using player_init_state [OF constants_with_jumping_ok demo_init]
  by (simp add: constants_with_jumping_vals)

theorem walking_jump_entry_witness:
  "\<exists>p1 p'. update constants_with_jumping (\<lambda>k. k = K_RIGHT) 0 16 demo_player = Inr p1 \<and>
     update constants_with_jumping (\<lambda>k. k = K_SPACE) 50 16 p1 = Inr p' \<and> state p' = PStr ''jumping''"
proof -
  from demo_walk obtain p1 where u: "update constants_with_jumping (\<lambda>k. k = K_RIGHT) 0 16 demo_player = Inr p1"
    and inv1: "player_inv constants_with_jumping p1" and st1: "state p1 = c_WALKING constants_with_jumping"
    by blast
  have "(\<lambda>k. k = K_SPACE) K_SPACE" "\<not> (\<lambda>k. k = K_SPACE) K_RIGHT" "\<not> (\<lambda>k. k = K_SPACE) K_LEFT"
    by (simp_all add: key_codes)
  from walking_jump_entry [OF constants_with_jumping_ok inv1 st1 this, of 50 16] u show ?thesis
    by (auto simp add: constants_with_jumping_vals)
qed

theorem walking_pacing_gate_witness:
  "\<exists>p1 p'. update constants_with_jumping (\<lambda>k. k = K_RIGHT) 0 16 demo_player = Inr p1 \<and>
     update constants_with_jumping (\<lambda>k. k = K_RIGHT) 50 16 p1 = Inr p' \<and> index p' = 0 \<and> timer p' = 0"
proof -
  from demo_walk obtain p1 where u: "update constants_with_jumping (\<lambda>k. k = K_RIGHT) 0 16 demo_player = Inr p1"
    and inv1: "player_inv constants_with_jumping p1" and st1: "state p1 = c_WALKING constants_with_jumping"
    and f1: "timer p1 = 0" "index p1 = 0"
    by blast
  obtain p' where u': "update constants_with_jumping (\<lambda>k. k = K_RIGHT) 50 16 p1 = Inr p'"
    using update_step_inv [OF constants_with_jumping_ok inv1] by blast
  from walking_pacing_gate [OF constants_with_jumping_ok inv1 st1 u'] f1 have "index p' = 0 \<and> timer p' = 0"
    by (simp add: constants_with_jumping_vals)
  with u u' show ?thesis by blast
qed

theorem jumping_is_absorbing_witness:
  "\<exists>p2 p'. update constants_with_jumping (\<lambda>k. k = K_SPACE) 0 16 demo_player = Inr p2 \<and>
     update constants_with_jumping (\<lambda>_. False) 5000 16 p2 = Inr p' \<and> state p' = PStr ''jumping''"
proof -
  from demo_jump obtain p2 where u: "update constants_with_jumping (\<lambda>k. k = K_SPACE) 0 16 demo_player = Inr p2"
    and inv2: "player_inv constants_with_jumping p2" and st2: "state p2 = c_JUMPING constants_with_jumping"
    by blast
  from jumping_is_absorbing [OF constants_with_jumping_ok inv2 st2, of "\<lambda>_. False" 5000 16] u show ?thesis
    by (auto simp add: constants_with_jumping_vals)
qed

theorem never_back_to_standing_witness:
  "\<exists>p1 p'. update constants_with_jumping (\<lambda>k. k = K_RIGHT) 0 16 demo_player = Inr p1 \<and>
     update constants_with_jumping (\<lambda>_. False) 50 16 p1 = Inr p' \<and> state p' \<noteq> PStr ''standing''"
proof -
  from demo_walk obtain p1 where u: "update constants_with_jumping (\<lambda>k. k = K_RIGHT) 0 16 demo_player = Inr p1"
    and inv1: "player_inv constants_with_jumping p1" and st1: "state p1 = c_WALKING constants_with_jumping"
    by blast
  obtain p' where u': "update constants_with_jumping (\<lambda>_. False) 50 16 p1 = Inr p'"
    using update_step_inv [OF constants_with_jumping_ok inv1] by blast
  have "state p1 \<noteq> c_STANDING constants_with_jumping" using st1 by (simp add: constants_with_jumping_vals)
  from never_back_to_standing [OF constants_with_jumping_ok inv1 this u'] u u' show ?thesis
    by (auto simp add: constants_with_jumping_vals)
qed

theorem walking_cursor_ignores_keys_witness:
  "\<exists>p1 pa pb. update constants_with_jumping (\<lambda>k. k = K_RIGHT) 0 16 demo_player = Inr p1 \<and>
     update constants_with_jumping (\<lambda>k. k = K_LEFT) 150 16 p1 = Inr pa \<and>
     update constants_with_jumping (\<lambda>k. k = K_RIGHT) 150 16 p1 = Inr pb \<and> index pa = index pb"
proof -
  from demo_walk obtain p1 where u: "update constants_with_jumping (\<lambda>k. k = K_RIGHT) 0 16 demo_player = Inr p1"
    and inv1: "player_inv constants_with_jumping p1" and st1: "state p1 = c_WALKING constants_with_jumping"
    by blast
  obtain pa where ua: "update constants_with_jumping (\<lambda>k. k = K_LEFT) 150 16 p1 = Inr pa"
    using update_step_inv [OF constants_with_jumping_ok inv1] by blast
  obtain pb where ub: "update constants_with_jumping (\<lambda>k. k = K_RIGHT) 150 16 p1 = Inr pb"
    using update_step_inv [OF constants_with_jumping_ok inv1] by blast
  from walking_cursor_ignores_keys [OF constants_with_jumping_ok inv1 st1 ua ub] u ua ub show ?thesis
    by blast
qed

theorem walking_shows_current_frame_witness:
  "\<exists>p1 p'. update constants_with_jumping (\<lambda>k. k = K_RIGHT) 0 16 demo_player = Inr p1 \<and>
     update constants_with_jumping (\<lambda>k. k = K_LEFT) 150 16 p1 = Inr p' \<and>
     image_attr p' = the (walking_image_dict p1 (PStr ''right'')) ! 0"
proof -
  from demo_walk obtain p1 where u: "update constants_with_jumping (\<lambda>k. k = K_RIGHT) 0 16 demo_player = Inr p1"
    and inv1: "player_inv constants_with_jumping p1" and st1: "state p1 = c_WALKING constants_with_jumping"
    and f1: "index p1 = 0" "direction p1 = PStr ''right''"
    by blast
  obtain p' where u': "update constants_with_jumping (\<lambda>k. k = K_LEFT) 150 16 p1 = Inr p'"
    using update_step_inv [OF constants_with_jumping_ok inv1] by blast
  from walking_shows_current_frame [OF constants_with_jumping_ok inv1 st1 u'] f1 u u' show ?thesis
    by auto
qed


text \<open>
  C29. Over any run of ticks from a well-formed object, the dispatch table, the three frame
  dictionaries, \<open>x_vel\<close> and the rectangle stay as they were: the frame sets are built
  once by the constructor and only read afterwards, and the position is never moved.
\<close>

theorem update_run_keeps_frame_sets:
  assumes "player_consts_ok cm" "player_inv cm p" "update_run cm ticks p = Inr p'"
  shows "state_dict p' = state_dict p \<and> walking_image_dict p' = walking_image_dict p \<and>
    standing_image_dict p' = standing_image_dict p \<and> jumping_image_dict p' = jumping_image_dict p \<and>
    x_vel p' = x_vel p \<and> rect p' = rect p"
  using update_run_inv [OF assms] by blast

theorem update_run_keeps_frame_sets_witness:
  "\<exists>p'. update_run constants_with_jumping [(\<lambda>k. k = K_RIGHT, 0, 16), (\<lambda>k. k = K_LEFT, 120, 16)] demo_player = Inr p' \<and>
     walking_image_dict p' = walking_image_dict demo_player"
proof -
  obtain p1 where u1: "update constants_with_jumping (\<lambda>k. k = K_RIGHT) 0 16 demo_player = Inr p1"
    and inv1: "player_inv constants_with_jumping p1"
    using update_step_inv [OF constants_with_jumping_ok demo_inv] by blast
  obtain p2 where u2: "update constants_with_jumping (\<lambda>k. k = K_LEFT) 120 16 p1 = Inr p2"
    using update_step_inv [OF constants_with_jumping_ok inv1] by blast
  from u1 u2 have r: "update_run constants_with_jumping [(\<lambda>k. k = K_RIGHT, 0, 16), (\<lambda>k. k = K_LEFT, 120, 16)] demo_player = Inr p2"
    by simp
  from update_run_keeps_frame_sets [OF constants_with_jumping_ok demo_inv r] r show ?thesis by blast
qed


end
