(* ===== verification/Spec2Isabelle.thy ===== *)
theory Spec2Isabelle
  imports Runs Player_Properties
begin

text \<open>
  \<^bold>\<open>Verification of the bouncy-shoes player controller.\<close>

  \<^bold>\<open>The program.\<close> The repository snapshot has two source files.
  \<^verbatim>\<open>src/data/constants.py\<close> is a configuration module (colours, state names,
  physics constants, key bindings). \<^verbatim>\<open>src/data/sprites/player.py\<close> is
  \<open>class Player\<close>: its constructor builds the animation frame sets from the loaded
  sprite sheets \<open>setup.GFX\<close> through \<open>tools.get_image\<close> and
  \<open>pygame.transform.flip\<close>, and \<open>update(keys, current_time, dt)\<close>, called once
  per frame by the game loop, looks the current state up in the dispatch table
  \<open>state_dict\<close> and runs \<open>standing\<close>, \<open>walking\<close> (with \<open>animate\<close> and
  \<open>get_animation_speed\<close>) or \<open>jumping\<close>; \<open>enter_jump_state\<close> is shared.
  Every method reads its constants as attributes \<open>c.NAME\<close> of the constants module.

  \<^bold>\<open>The theories.\<close>
  \<^item> \<open>Prelude\<close>: Python values (\<open>pyval\<close>) and exceptions (\<open>py_error\<close>), the
    result type \<open>py_error + 'a\<close> with \<open>py_bind\<close> for exception propagation, dict
    subscription, list indexing and \<open>pop(-1)\<close> with their errors, \<open>py_mapM\<close>
    (the reference semantics of a loop that collects raising calls), pygame key codes.
  \<^item> \<open>Constants\<close>: \<open>constants_module\<close>, every binding of constants.py as a map
    from names to values; \<open>c_attr\<close> is \<open>c.NAME\<close> (AttributeError when unbound).
    The player is modelled over any module \<open>cm\<close>; \<open>player_consts_ok\<close> states what
    it needs (the three state names distinct, the two direction names distinct, an int
    \<open>SLOWEST_FREQUENCY\<close>, a \<open>START_JUMP_VEL\<close>). \<open>constants_with_jumping\<close> is
    the shipped module plus the one missing binding \<open>JUMPING = 'jumping'\<close>.
  \<^item> \<open>Images\<close>: the image-provider interface \<open>image_api\<close> (get_image, flip,
    size) the player is parametric in, and \<open>pixel_api\<close>, an implementation on
    surfaces given by size and pixel function: \<open>surf_get_image\<close> (tools.py is not in
    the snapshot; modelled from the spec, a rectangle outside the sheet is a
    construction error) and \<open>surf_flip\<close> (pygame's flip).
  \<^item> \<open>FrameSets\<close>: \<open>make_walking_image_list\<close> (the nested coordinate loops
    as \<open>coord_loop\<close> over \<open>while_option\<close> with the body \<open>coord_step\<close>, the
    slicing loop \<open>slice_cells\<close>, \<open>pop(-1)\<close>, mirroring),
    \<open>make_walking_image_dict\<close>, \<open>make_standing_image_dict\<close>,
    \<open>make_jumping_image_dict\<close>. \<open>walk_coords\<close> is the row-major list of the 12
    cells, the value the loop computes at the code's bounds (\<open>coord_loop 2 6 = Some
    walk_coords\<close>, by evaluation). Lemmas: the coordinate loop terminates for all range
    bounds and yields the row-major grid; the slicing loop equals \<open>py_mapM\<close> over the
    cells; the walking list is the 11 first cells in row-major order; the left list is the
    mirrored right list.
  \<^item> \<open>Player\<close>: the object as the record \<open>player\<close> (one field per attribute;
    \<open>image\<close> is \<open>image_attr\<close>, \<open>image_list\<close> is an option because the attribute
    exists only after the first walking tick), and one definition per method, each
    statement in the source's order and each \<open>c.NAME\<close>, dict lookup and list index a
    possible exception. Lemmas: under \<open>player_consts_ok\<close> every method returns
    normally, in closed form; the pacing threshold is the spec's formula.
  \<^item> \<open>Player_Invariant\<close>: well-formedness \<open>player_wf\<close> (table entries for the
    three states, state and direction among the module's names, both frames of every pose
    present, equal walking cycle lengths, cursor within the cycle) and the invariant
    \<open>player_inv\<close> (well formed and \<open>x_vel = 0\<close>), the reachable objects
    (\<open>reachable\<close>: constructed, then any tick), the game loop \<open>update_run\<close>
    (modelled from the spec: it is outside the snapshot). Lemmas: \<open>update\<close> in closed form
    per state for every velocity, construction establishes the invariant, each method keeps
    well-formedness and never raises, runs compose (\<open>update_run_append\<close>).
  \<^item> \<open>Demo\<close>: the object built from \<open>demo_gfx\<close> with \<open>constants_with_jumping\<close>
    and its first ticks, on which the witnesses run.
  \<^item> \<open>Player_Properties\<close>: the spec's properties P1, P2, P5, P6 and scenario B on
    well-formed and reachable objects, the absorbing jump, the absence of any transition
    back to Standing, the unused jump button, frame sets constant over runs.
  \<^item> \<open>Controller_Spec\<close>: the spec's transition table and pacing rule as an abstract
    machine over a tagged union (\<open>loco\<close>, ordered Standing < Walking < Jumping by a
    \<open>linorder\<close> instance, \<open>facing\<close>, cursor, timer, vertical velocity),
    \<open>spec_step\<close>, \<open>spec_run\<close> and \<open>spec_run_v\<close> (with the velocity's
    \<open>threshold\<close>); \<open>ctrl_of\<close> abstracts a \<open>Player\<close>. Refinement: on every
    well-formed object one tick of \<open>update\<close> is one \<open>spec_step\<close>, and
    \<open>update_run\<close> over any tick sequence never raises and simulates the abstract run.
  \<^item> \<open>Pacing\<close>: animation pacing for every horizontal velocity (\<open>x_vel\<close> is the
    spec's extension point): bounds of the threshold, the refinement of whole runs with the
    velocity's threshold, runs of \<open>paced\<close> ticks (each beyond the threshold, no Jump)
    advancing the cursor by one per tick, and the liveness of the walking animation (every
    frame index is reached).
  \<^item> \<open>Runs\<close>: the locomotion state is monotone along runs; once the player has left
    Standing the arrow keys never affect state, cursor, timer or vertical velocity
    (scenario B over runs, through \<open>jump_view\<close>); every reachable object's
    attributes hold values of the kinds the code reads (\<open>attr_types\<close>,
    \<open>player_frames\<close>).
  \<^item> \<open>Spec2Isabelle\<close> (this theory): the properties spanning components: construction
    with the shipped constants, pixel-level mirror symmetry of the frame sets (P4), the
    size and position of the jumping poses, the construction error paths (missing sheet,
    the builders' errors in statement order), and the composition of image provider,
    builders and controller on the frame the renderer receives: a tick of a reachable
    object displays, per state, exactly the standing sheet, the walking-sheet cell of the
    cursor or the jumping-sheet cell, cut for \<open>c.RIGHT\<close> and mirrored (standing,
    walking) or taken from the second cell (jumping) for \<open>c.LEFT\<close>.

  \<^bold>\<open>Findings.\<close> constants.py never binds \<open>JUMPING\<close>, so \<open>Player()\<close> raises
  AttributeError in \<open>make_state_dict\<close> (and \<open>enter_jump_state\<close> would too): with the
  shipped module nothing runs. All behavioural theorems are therefore stated for any module
  satisfying \<open>player_consts_ok\<close>, and witnessed on \<open>constants_with_jumping\<close>. The
  configured \<open>JUMP_BUTTON = K_a\<close> is never read (the code jumps on Space); jumping with
  an arrow from Standing also turns and resets the cursor; no transition leaves Walking or
  Jumping; with a velocity
  set so that \<open>|x_vel| * 11 * dt > SLOWEST_FREQUENCY\<close> the pacing threshold is
  negative and the cursor advances on every tick, even with no time elapsed.

  \<^bold>\<open>Choices and limits.\<close> Clock values, deltas and velocities are Python ints (pygame
  ticks are integer milliseconds); float deltas are not modelled. The code never sets
  \<open>x_vel\<close>, so reachable objects have \<open>x_vel = 0\<close>; the theories \<open>Pacing\<close> and
  \<open>Controller_Spec\<close> also cover any velocity a collaborator sets, on well-formed
  objects. Key codes are pygame 2's; only their distinctness is used. Python 3 semantics:
  comparing or subtracting a non-int constant raises TypeError. An exception aborts the
  tick, so the partial assignments before it are not kept (the game loop does not recover
  from one). Termination: no loop of the code is unbounded. The nested \<open>range\<close> loops
  building the coordinates are kept as a \<open>while_option\<close> loop whose termination is
  proved with a measure on the counters (\<open>measure_while_option_Some\<close>); the slicing
  loop runs over the coordinate list and the game loop over a given finite tick list, so
  the other recursive definitions are structural (\<open>fun\<close>/\<open>primrec\<close> on lists) and
  no fuel or \<open>partial_function\<close> is needed.

  \<^bold>\<open>Not modelled, and why.\<close> Every statement of the two source files is translated:
  all bindings of \<open>constants.py\<close> and every method of \<open>class Player\<close>; the only lines
  of \<open>player.py\<close> no definition maps are the module docstring, the imports and the
  class header. What remains lies outside the repository snapshot and cannot be translated
  faithfully. \<open>tools.get_image\<close> (tools.py is absent): the image provider is an
  interface, \<open>image_api\<close>, and \<open>pixel_api\<close> implements it as the spec describes it
  (a rectangle outside the sheet is an error); a blit-based implementation that pads with
  transparent pixels would never raise there, but its code is not in the snapshot, so the
  construction error paths that rest on it are stated for \<open>pixel_api\<close> only. Asset loading
  (\<open>setup.GFX\<close>, setup.py is absent and reads files): a parameter, any map from sheet
  names to images. The game loop (outside the snapshot): modelled from the spec as
  \<open>update_run\<close>, one \<open>update\<close> per tick. Rendering, pygame sprite groups and the
  screen rectangle beyond its construction: I/O that only reads the \<open>image\<close> attribute
  the controller selects, whose values the theories \<open>Runs\<close> (\<open>player_frames\<close>)
  and \<open>Spec2Isabelle\<close> (the frame displayed per state) characterise.
\<close>

text \<open>
  C1. With the repository's own \<open>src/data/constants.py\<close>, constructing a \<open>Player\<close>
  raises AttributeError on \<open>JUMPING\<close>, whatever the sprite sheets and image provider:
  \<open>make_state_dict\<close> reads \<open>c.JUMPING\<close>, which the module never binds.
\<close>

theorem player_init_repository_constants:
  "player_init constants_module api gfx = (Inl (AttributeError ''JUMPING'') :: 'img player result)"
proof -
  have "make_state_dict constants_module = Inl (AttributeError ''JUMPING'')"
    by (simp add: make_state_dict_def constants_module_def)
  then show ?thesis by (simp add: player_init_def)
qed

text \<open>
  C16. Mirror symmetry at the pixel level (spec P4): with the pixel image provider, every
  left-facing walking frame is the horizontal mirror of the right-facing frame at the same
  index, and the left standing pose is the mirror of the right one.
\<close>

theorem pixel_frames_mirror:
  assumes ok: "player_consts_ok cm"
    and w: "make_walking_image_dict cm pixel_api gfx = Inr wd"
    and s: "make_standing_image_dict cm pixel_api gfx = Inr sd"
  shows "length (the (wd (c_LEFT cm))) = length (the (wd (c_RIGHT cm))) \<and>
    (\<forall>k < length (the (wd (c_RIGHT cm))). is_hmirror (the (wd (c_LEFT cm)) ! k) (the (wd (c_RIGHT cm)) ! k)) \<and>
    is_hmirror (the (sd (c_LEFT cm))) (the (sd (c_RIGHT cm)))"
proof -
  have d: "c_RIGHT cm \<noteq> c_LEFT cm" using ok by (rule consts_ok_distinct(4))
  from w ok obtain right where wd: "wd = Map.empty(c_RIGHT cm \<mapsto> right, c_LEFT cm \<mapsto> map (\<lambda>i. surf_flip i True False) right)"
    by (auto simp add: make_walking_image_dict_Inr_iff)
  from s ok obtain r where sd: "sd = Map.empty(c_RIGHT cm \<mapsto> r, c_LEFT cm \<mapsto> surf_flip r True False)"
    by (auto simp add: make_standing_image_dict_Inr_iff)
  from d show ?thesis by (simp add: wd sd surf_flip_hmirror)
qed

theorem pixel_frames_mirror_witness:
  "\<exists>wd sd. make_walking_image_dict constants_with_jumping pixel_api demo_gfx = Inr wd \<and>
     make_standing_image_dict constants_with_jumping pixel_api demo_gfx = Inr sd \<and>
     is_hmirror (the (sd (PStr ''left''))) (the (sd (PStr ''right'')))"
proof -
  from demo_dicts have w: "make_walking_image_dict constants_with_jumping pixel_api demo_gfx = Inr (walking_image_dict demo_player)"
    and s: "make_standing_image_dict constants_with_jumping pixel_api demo_gfx = Inr (standing_image_dict demo_player)"
    by simp_all
  from pixel_frames_mirror [OF constants_with_jumping_ok w s] w s show ?thesis
    by (auto simp add: constants_with_jumping_vals)
qed

text \<open>
  C33. The two jumping poses are distinct authored cells, not mirrors: with the pixel
  image provider both poses are 66 \<open>\<times>\<close> 97 pixels, the right pose is the cell at
  \<open>(0, 0)\<close> of the jumping sheet and the left pose the cell at \<open>(66, 0)\<close>, so the
  sheet is at least 132 \<open>\<times>\<close> 97.
\<close>

theorem jumping_poses_are_cells:
  assumes ok: "player_consts_ok cm" and j: "make_jumping_image_dict cm pixel_api gfx = Inr jd"
  shows "\<exists>sheet. gfx ''p1_jumping'' = Some sheet \<and> 132 \<le> s_width sheet \<and> 97 \<le> s_height sheet \<and>
    surf_size (the (jd (c_RIGHT cm))) = (66, 97) \<and> surf_size (the (jd (c_LEFT cm))) = (66, 97) \<and>
    (\<forall>x y. s_pixel (the (jd (c_RIGHT cm))) x y = s_pixel sheet x y) \<and>
    (\<forall>x y. s_pixel (the (jd (c_LEFT cm))) x y = s_pixel sheet (66 + x) y)"
proof -
  have d: "c_RIGHT cm \<noteq> c_LEFT cm" using ok by (rule consts_ok_distinct(4))
  from j ok obtain sheet r l where g: "gfx ''p1_jumping'' = Some sheet"
    and r: "surf_get_image 0 0 66 97 sheet = Inr r" and l: "surf_get_image 66 0 66 97 sheet = Inr l"
    and jd: "jd = Map.empty(c_RIGHT cm \<mapsto> r, c_LEFT cm \<mapsto> l)"
    by (auto simp add: make_jumping_image_dict_Inr_iff)
  from l have "132 \<le> s_width sheet" "97 \<le> s_height sheet" by (simp_all add: surf_get_image_Inr_iff rect_inside_def)
  with g r l d show ?thesis by (simp add: jd surf_get_image_Inr_iff surf_size_def)
qed

theorem jumping_poses_are_cells_witness:
  "\<exists>jd. make_jumping_image_dict constants_with_jumping pixel_api demo_gfx = Inr jd \<and>
     s_pixel (the (jd (PStr ''left''))) 0 0 = (66, 0)"
proof -
  from demo_dicts have j: "make_jumping_image_dict constants_with_jumping pixel_api demo_gfx = Inr (jumping_image_dict demo_player)"
    by simp
  from jumping_poses_are_cells [OF constants_with_jumping_ok j] j show ?thesis
    by (auto simp add: constants_with_jumping_vals demo_gfx_def coord_sheet_def)
qed

text \<open>
  C34. Construction-time error path: with a well-formed constants module but no
  \<open>p1_walking\<close> sheet loaded, the constructor raises KeyError on that name.
\<close>

theorem player_init_missing_sheet:
  assumes "player_consts_ok cm" and "gfx ''p1_walking'' = None"
  shows "player_init cm api gfx = (Inl (KeyError (PStr ''p1_walking'')) :: 'img player result)"
  using assms by (simp add: player_init_def make_state_dict_def make_walking_image_dict_def py_simps)

theorem player_init_missing_sheet_witness:
  "player_init constants_with_jumping pixel_api (demo_gfx(''p1_walking'' := None)) =
     Inl (KeyError (PStr ''p1_walking''))"
  by (rule player_init_missing_sheet [OF constants_with_jumping_ok]) simp

text \<open>
  C35. The construction's error paths in the source's statement order: with well-formed
  constants, \<open>Player()\<close> raises exactly the exception of the first frame-set builder
  that raises (walking, then standing, then jumping), and nothing else can raise.
\<close>

theorem player_init_Inl_iff:
  assumes ok: "player_consts_ok cm"
  shows "player_init cm api gfx = Inl e \<longleftrightarrow>
    make_walking_image_dict cm api gfx = Inl e \<or>
    (\<exists>wd. make_walking_image_dict cm api gfx = Inr wd \<and> make_standing_image_dict cm api gfx = Inl e) \<or>
    (\<exists>wd sid. make_walking_image_dict cm api gfx = Inr wd \<and> make_standing_image_dict cm api gfx = Inr sid \<and>
       make_jumping_image_dict cm api gfx = Inl e)"
proof (cases "make_walking_image_dict cm api gfx")
  case Inl
  with ok show ?thesis by (auto simp add: player_init_def make_state_dict_ok py_simps)
next
  case (Inr wd)
  show ?thesis
  proof (cases "make_standing_image_dict cm api gfx")
    case Inl
    with ok Inr show ?thesis by (auto simp add: player_init_def make_state_dict_ok py_simps)
  next
    case (Inr sid)
    with ok have "sid (c_RIGHT cm) \<noteq> None" by (auto simp add: make_standing_image_dict_Inr_iff)
    with ok Inr \<open>make_walking_image_dict cm api gfx = Inr wd\<close> show ?thesis
      by (cases "make_jumping_image_dict cm api gfx") (auto simp add: player_init_def make_state_dict_ok py_simps)
  qed
qed

theorem player_init_Inl_iff_witness:
  "player_init constants_with_jumping pixel_api (demo_gfx(''p1_jumping'' \<mapsto> coord_sheet 100 97)) =
     Inl (ImageError ''rectangle outside sprite sheet'')"
proof -
  let ?g = "demo_gfx(''p1_jumping'' \<mapsto> coord_sheet 100 97)"
  have "make_walking_image_dict constants_with_jumping pixel_api ?g =
      make_walking_image_dict constants_with_jumping pixel_api demo_gfx"
    "make_standing_image_dict constants_with_jumping pixel_api ?g =
      make_standing_image_dict constants_with_jumping pixel_api demo_gfx"
    by (simp_all add: make_walking_image_dict_def make_standing_image_dict_def py_getitem_def)
  moreover have "make_jumping_image_dict constants_with_jumping pixel_api ?g =
      Inl (ImageError ''rectangle outside sprite sheet'')"
    by (simp add: make_jumping_image_dict_def surf_get_image_def rect_inside_def coord_sheet_def)
  ultimately show ?thesis
    using player_init_Inl_iff [OF constants_with_jumping_ok, of pixel_api ?g] demo_dicts by auto
qed

lemma reachable_dicts:
  "reachable cm api gfx p \<Longrightarrow> player_consts_ok cm \<Longrightarrow>
     make_walking_image_dict cm api gfx = Inr (walking_image_dict p) \<and>
     make_standing_image_dict cm api gfx = Inr (standing_image_dict p) \<and>
     make_jumping_image_dict cm api gfx = Inr (jumping_image_dict p)"
proof (induction rule: reachable.induct)
  case (init p)
  then show ?case by (auto simp add: player_init_Inr_iff)
next
  case (tick p keys t dt p')
  from tick.hyps(1) tick.prems have "player_wf cm p" by (simp add: reachable_inv)
  from update_frame [OF tick.prems this tick.hyps(2)] tick.IH tick.prems show ?case by simp
qed

text \<open>
  C17. The standing pose on the frame the renderer receives: with the pixel image
  provider, a tick of a reachable standing object displays the loaded \<open>p1_stand\<close>
  sheet itself when it faced \<open>c.RIGHT\<close> before the tick and its horizontal mirror when
  it faced \<open>c.LEFT\<close>, whatever keys the tick turns or jumps on.
\<close>

theorem standing_displays_pose:
  assumes ok: "player_consts_ok cm" and r: "reachable cm pixel_api gfx p" and st: "state p = c_STANDING cm"
    and u: "update cm keys t dt p = Inr p'"
  shows "\<exists>sheet. gfx ''p1_stand'' = Some sheet \<and>
    image_attr p' = (if direction p = c_RIGHT cm then sheet else surf_flip sheet True False)"
proof -
  from r ok have inv: "player_inv cm p" by (rule reachable_inv)
  then have wf: "player_wf cm p" by (rule player_inv_wf)
  from reachable_dicts [OF r ok] ok obtain sheet where sh: "gfx ''p1_stand'' = Some sheet"
    and sd: "standing_image_dict p = Map.empty(c_RIGHT cm \<mapsto> sheet, c_LEFT cm \<mapsto> surf_flip sheet True False)"
    by (auto simp add: make_standing_image_dict_Inr_iff)
  have d: "c_RIGHT cm \<noteq> c_LEFT cm" using ok by (rule consts_ok_distinct(4))
  from wf have dir: "direction p = c_RIGHT cm \<or> direction p = c_LEFT cm" by (simp add: player_wf_def)
  from update_standing [OF ok wf st, of keys t dt] u
  have "image_attr p' = the (standing_image_dict p (direction p))" by (auto simp add: Let_def)
  with sh sd d dir show ?thesis by auto
qed

theorem standing_displays_pose_witness:
  "\<exists>p'. update constants_with_jumping (\<lambda>_. False) 0 16 demo_player = Inr p' \<and>
     image_attr p' = coord_sheet 66 92"
proof -
  obtain p' where u: "update constants_with_jumping (\<lambda>_. False) 0 16 demo_player = Inr p'"
    using update_step_inv [OF constants_with_jumping_ok demo_inv] by blast
  from standing_displays_pose [OF constants_with_jumping_ok demo_reachable _ u] demo_fields u show ?thesis
    by (auto simp add: demo_gfx_def constants_with_jumping_vals)
qed

text \<open>
  C19. The jumping pose on the frame the renderer receives: with the pixel image provider,
  a tick of a reachable jumping object displays the 66 \<open>\<times>\<close> 97 cell of the loaded
  \<open>p1_jumping\<close> sheet at \<open>(0, 0)\<close> when it faced \<open>c.RIGHT\<close> before the tick and
  the cell at \<open>(66, 0)\<close> when it faced \<open>c.LEFT\<close>.
\<close>

theorem jumping_displays_pose:
  assumes ok: "player_consts_ok cm" and r: "reachable cm pixel_api gfx p" and st: "state p = c_JUMPING cm"
    and u: "update cm keys t dt p = Inr p'"
  shows "\<exists>sheet. gfx ''p1_jumping'' = Some sheet \<and>
    surf_get_image (if direction p = c_RIGHT cm then 0 else 66) 0 66 97 sheet = Inr (image_attr p')"
proof -
  from r ok have inv: "player_inv cm p" by (rule reachable_inv)
  then have wf: "player_wf cm p" by (rule player_inv_wf)
  from reachable_dicts [OF r ok] ok obtain sheet jr jl where sh: "gfx ''p1_jumping'' = Some sheet"
    and "surf_get_image 0 0 66 97 sheet = Inr jr" "surf_get_image 66 0 66 97 sheet = Inr jl"
    and jd: "jumping_image_dict p = Map.empty(c_RIGHT cm \<mapsto> jr, c_LEFT cm \<mapsto> jl)"
    by (auto simp add: make_jumping_image_dict_Inr_iff)
  moreover have d: "c_RIGHT cm \<noteq> c_LEFT cm" using ok by (rule consts_ok_distinct(4))
  moreover from wf have dir: "direction p = c_RIGHT cm \<or> direction p = c_LEFT cm" by (simp add: player_wf_def)
  moreover from update_jumping [OF ok wf st, of keys t dt] u
  have "image_attr p' = the (jumping_image_dict p (direction p))" by auto
  ultimately show ?thesis by auto
qed

theorem jumping_displays_pose_witness:
  "\<exists>p2 p'. update constants_with_jumping (\<lambda>k. k = K_SPACE) 0 16 demo_player = Inr p2 \<and>
     update constants_with_jumping (\<lambda>_. False) 10 16 p2 = Inr p' \<and>
     surf_get_image 0 0 66 97 (coord_sheet 132 97) = Inr (image_attr p')"
proof -
  have ok: "player_consts_ok constants_with_jumping" by (rule constants_with_jumping_ok)
  have wf: "player_wf constants_with_jumping demo_player" using demo_inv by (rule player_inv_wf)
  have st: "state demo_player = c_STANDING constants_with_jumping"
    using demo_fields by (simp add: constants_with_jumping_vals)
  from demo_jump obtain p2 where u: "update constants_with_jumping (\<lambda>k. k = K_SPACE) 0 16 demo_player = Inr p2"
    and inv2: "player_inv constants_with_jumping p2" and st2: "state p2 = c_JUMPING constants_with_jumping"
    by blast
  from update_standing [OF ok wf st, of "\<lambda>k. k = K_SPACE" 0 16] u demo_fields
  have dir: "direction p2 = c_RIGHT constants_with_jumping"
    by (auto simp add: constants_with_jumping_vals key_codes Let_def)
  from demo_reachable u have r: "reachable constants_with_jumping pixel_api demo_gfx p2" by (rule reachable.tick)
  obtain p' where u': "update constants_with_jumping (\<lambda>_. False) 10 16 p2 = Inr p'"
    using update_step_inv [OF ok inv2] by blast
  from jumping_displays_pose [OF ok r st2 u'] dir u u' show ?thesis
    by (auto simp add: demo_gfx_def)
qed

text \<open>
  C18. End to end, spec P3 and P4 on the frame the renderer receives: with the pixel image
  provider, a walking tick of a reachable object displays the 72 \<open>\<times>\<close> 97 cell of the
  walking sheet at column \<open>index mod 6\<close>, row \<open>index div 6\<close> of the cursor, as
  cut when facing \<open>c.RIGHT\<close> and mirrored when facing \<open>c.LEFT\<close>.
\<close>

theorem walking_displays_sheet_cell:
  assumes ok: "player_consts_ok cm" and r: "reachable cm pixel_api gfx p" and st: "state p = c_WALKING cm"
    and u: "update cm keys t dt p = Inr p'"
  shows "\<exists>sheet cell. gfx ''p1_walking'' = Some sheet \<and>
    surf_get_image (int (nat (index p) mod 6) * 72) (int (nat (index p) div 6) * 97) 72 97 sheet = Inr cell \<and>
    image_attr p' = (if direction p = c_RIGHT cm then cell else surf_flip cell True False)"
proof -
  from r ok have inv: "player_inv cm p" by (rule reachable_inv)
  from reachable_dicts [OF r ok] ok obtain sheet right where sh: "gfx ''p1_walking'' = Some sheet"
    and right: "make_walking_image_list pixel_api sheet False = Inr right"
    and wd: "walking_image_dict p = Map.empty(c_RIGHT cm \<mapsto> right, c_LEFT cm \<mapsto> map (\<lambda>i. surf_flip i True False) right)"
    by (auto simp add: make_walking_image_dict_Inr_iff)
  note cells = make_walking_image_list_cells [OF right]
  have d: "c_RIGHT cm \<noteq> c_LEFT cm" using ok by (rule consts_ok_distinct(4))
  from inv obtain il where il: "walking_image_dict p (direction p) = Some il" and i: "0 \<le> index p" "index p < int (length il)"
    by (rule player_inv_frames)
  from inv have dir: "direction p = c_RIGHT cm \<or> direction p = c_LEFT cm" by (simp add: player_inv_def player_wf_def)
  with il wd d cells have len: "length il = 11" by auto
  with i have k: "nat (index p) < 11" by simp
  with cells have c: "surf_get_image (int (nat (index p) mod 6) * 72) (int (nat (index p) div 6) * 97) 72 97 sheet =
      Inr (right ! nat (index p))"
    by (simp add: cell_image_def walk_coords_nth)
  from update_walking [OF ok inv st, of keys t dt] u
  have "image_attr p' = the (walking_image_dict p (direction p)) ! nat (index p)" by (auto simp add: Let_def)
  with dir wd d k cells have "image_attr p' = (if direction p = c_RIGHT cm then right ! nat (index p)
      else surf_flip (right ! nat (index p)) True False)"
    by auto
  with sh c show ?thesis by blast
qed

theorem walking_displays_sheet_cell_witness:
  "\<exists>p1 p' cell. update constants_with_jumping (\<lambda>k. k = K_RIGHT) 0 16 demo_player = Inr p1 \<and>
     update constants_with_jumping (\<lambda>_. False) 50 16 p1 = Inr p' \<and>
     surf_get_image 0 0 72 97 (coord_sheet 432 194) = Inr cell \<and> image_attr p' = cell"
proof -
  from demo_walk obtain p1 where u: "update constants_with_jumping (\<lambda>k. k = K_RIGHT) 0 16 demo_player = Inr p1"
    and inv1: "player_inv constants_with_jumping p1" and f: "state p1 = c_WALKING constants_with_jumping"
      "index p1 = 0" "direction p1 = PStr ''right''"
    by blast
  from demo_reachable u have r: "reachable constants_with_jumping pixel_api demo_gfx p1" by (rule reachable.tick)
  obtain p' where u': "update constants_with_jumping (\<lambda>_. False) 50 16 p1 = Inr p'"
    using update_step_inv [OF constants_with_jumping_ok inv1] by blast
  from walking_displays_sheet_cell [OF constants_with_jumping_ok r f(1) u'] f u u' show ?thesis
    by (auto simp add: demo_gfx_def constants_with_jumping_vals)
qed

end
